theory Spec2Isabelle
  imports Main
begin

section \<open>Data model (product/models.py)\<close>

text \<open>
  Primary keys are the automatic integer ids of the framework. Python exceptions are
  values of \<open>error\<close>: a \<open>ValidationError\<close> carries its messages.
\<close>

type_synonym pk = nat

datatype error =
    ValidationError "string list"
  | IntegrityError
  | KeyError
  | TypeError
  | IndexError

text \<open>
  Stored rows. Only the columns that the validators, the ordering field, the serializers
  and the views read are kept; foreign keys hold the primary key of the row they point to.
  A stored row always has an id and an order (both columns are NOT NULL).
\<close>

record Category =
  cat_id :: pk
  cat_name :: string
  cat_slug :: string
  cat_is_active :: bool

record Product =
  prod_id :: pk
  prod_name :: string
  prod_slug :: string
  prod_pid :: string
  prod_description :: string
  prod_is_active :: bool
  prod_category :: pk
  prod_created_at :: string

record Attribute =
  attr_id :: pk
  attr_name :: string

record AttributeValue =
  av_id :: pk
  av_attribute_value :: string
  av_attribute :: pk

record ProductLine_row =
  pl_id :: pk
  pl_price :: string
  pl_sku :: string
  pl_stock_qty :: int
  pl_is_active :: bool
  pl_order :: int
  pl_product :: pk

record ProductImage_row =
  img_id :: pk
  img_alternative_text :: string
  img_url :: string
  img_order :: int
  img_product_line :: pk

record ProductAttributeValue_row =
  pav_id :: pk
  pav_attribute_value :: pk
  pav_product :: pk

record ProductLineAttributeValue_row =
  plav_id :: pk
  plav_attribute_value :: pk
  plav_product_line :: pk

record database =
  categories :: "Category list"
  products :: "Product list"
  attributes :: "Attribute list"
  attribute_values :: "AttributeValue list"
  product_lines :: "ProductLine_row list"
  product_images :: "ProductImage_row list"
  product_attribute_values :: "ProductAttributeValue_row list"
  product_line_attribute_values :: "ProductLineAttributeValue_row list"

text \<open>
  Model instances as a caller hands them to \<open>save()\<close>: the id is \<open>None\<close> for an
  object that was never saved and \<open>Some i\<close> for one loaded from row \<open>i\<close>; the order is
  \<open>None\<close> when it was left unset. A join instance holds the \<open>AttributeValue\<close> object it
  points to, as \<open>self.attribute_value\<close> does.
\<close>

record ProductLine =
  line_id :: "pk option"
  line_price :: string
  line_sku :: string
  line_stock_qty :: int
  line_is_active :: bool
  line_order :: "int option"
  line_product :: pk

record ProductImage =
  image_id :: "pk option"
  image_alternative_text :: string
  image_url :: string
  image_order :: "int option"
  image_product_line :: pk

record ProductAttributeValue =
  pv_id :: "pk option"
  pv_attribute_value :: AttributeValue
  pv_product :: pk

record ProductLineAttributeValue =
  lav_id :: "pk option"
  lav_attribute_value :: AttributeValue
  lav_product_line :: pk

section \<open>The ordering field (product/fields.py)\<close>

text \<open>
  \<open>query_set.latest(self.attname)\<close>: the row with the greatest order, or
  \<open>ObjectDoesNotExist\<close> (here \<open>None\<close>) when the query set is empty.
\<close>

fun latest :: "('r \<Rightarrow> int) \<Rightarrow> 'r list \<Rightarrow> 'r option" where
  "latest f [] = None"
| "latest f (r # rs) =
     (case latest f rs of
        None \<Rightarrow> Some r
      | Some m \<Rightarrow> if f r < f m then Some m else Some r)"

text \<open>
  \<open>OrderField.pre_save\<close>. The field is configured with \<open>unique_for_field\<close>; the
  arguments are the order column, that parent column, \<open>self.model.objects.all()\<close>, and
  the instance's parent and current order.
\<close>

definition OrderField_pre_save ::
  "('r \<Rightarrow> int) \<Rightarrow> ('r \<Rightarrow> 'k) \<Rightarrow> 'r list \<Rightarrow> 'k \<Rightarrow> int option \<Rightarrow> int" where
  "OrderField_pre_save order_of unique_for_field all_rows parent current =
     (case current of
        None \<Rightarrow>
          (let query_set = filter (\<lambda>r. unique_for_field r = parent) all_rows in
           case latest order_of query_set of
             Some last_item \<Rightarrow> order_of last_item + 1
           | None \<Rightarrow> 1)
      | Some v \<Rightarrow> v)"

section \<open>Persistence (the framework's Model.save and Model.full_clean)\<close>

text \<open>
  \<open>Model.save\<close> writes one row: an instance without id is inserted under a fresh id; an
  instance with id \<open>i\<close> updates the row \<open>i\<close>, or is inserted as row \<open>i\<close> when no such row
  exists.
\<close>

definition fresh_pk :: "pk list \<Rightarrow> pk" where
  "fresh_pk ids = Suc (fold max ids 0)"

definition Model_save :: "('r \<Rightarrow> pk) \<Rightarrow> (pk \<Rightarrow> 'r) \<Rightarrow> pk option \<Rightarrow> 'r list \<Rightarrow> 'r list" where
  "Model_save pk_of row_of ident rows =
     (case ident of
        None \<Rightarrow> rows @ [row_of (fresh_pk (map pk_of rows))]
      | Some i \<Rightarrow>
          if i \<in> set (map pk_of rows)
          then map (\<lambda>r. if pk_of r = i then row_of i else r) rows
          else rows @ [row_of i])"

text \<open>
  \<open>Model.full_clean\<close> runs \<open>clean_fields\<close>, \<open>clean\<close> and \<open>validate_unique\<close>, collects
  their messages and raises one \<open>ValidationError\<close> when there is any. The per-column
  validators of \<open>clean_fields\<close> belong to the framework: their messages for an instance
  are a parameter of every \<open>save\<close> below. \<open>validate_unique\<close> is run over the columns
  that passed \<open>clean_fields\<close>; the only uniqueness rule here spans every column of its
  table, so its messages count when no column failed.
\<close>

definition messages :: "error + unit \<Rightarrow> string list" where
  "messages r = (case r of Inl (ValidationError ms) \<Rightarrow> ms | _ \<Rightarrow> [])"

definition full_clean :: "string list \<Rightarrow> error + unit \<Rightarrow> string list \<Rightarrow> error + unit" where
  "full_clean field_errors cleaned unique_errors =
     (let errors = field_errors @ messages cleaned @
                     (if field_errors = [] then unique_errors else [])
      in if errors = [] then Inr () else Inl (ValidationError errors))"

section \<open>ProductLine (product/models.py)\<close>

fun ProductLine_clean_loop :: "ProductLine \<Rightarrow> ProductLine_row list \<Rightarrow> error + unit" where
  "ProductLine_clean_loop self [] = Inr ()"
| "ProductLine_clean_loop self (obj # query_set) =
     (if line_id self \<noteq> Some (pl_id obj) \<and> line_order self = Some (pl_order obj)
      then Inl (ValidationError [''Duplicate value.''])
      else ProductLine_clean_loop self query_set)"

definition ProductLine_clean :: "database \<Rightarrow> ProductLine \<Rightarrow> error + unit" where
  "ProductLine_clean db self =
     (let query_set = filter (\<lambda>obj. pl_product obj = line_product self) (product_lines db)
      in ProductLine_clean_loop self query_set)"

definition ProductLine_to_row :: "ProductLine \<Rightarrow> int \<Rightarrow> pk \<Rightarrow> ProductLine_row" where
  "ProductLine_to_row self v i =
     \<lparr>pl_id = i, pl_price = line_price self, pl_sku = line_sku self,
      pl_stock_qty = line_stock_qty self, pl_is_active = line_is_active self,
      pl_order = v, pl_product = line_product self\<rparr>"

definition ProductLine_super_save :: "database \<Rightarrow> ProductLine \<Rightarrow> database" where
  "ProductLine_super_save db self =
     (let v = OrderField_pre_save pl_order pl_product (product_lines db)
                (line_product self) (line_order self)
      in db\<lparr>product_lines :=
               Model_save pl_id (ProductLine_to_row self v) (line_id self) (product_lines db)\<rparr>)"

definition ProductLine_save ::
  "(database \<Rightarrow> ProductLine \<Rightarrow> string list) \<Rightarrow> database \<Rightarrow> ProductLine
     \<Rightarrow> (error + unit) \<times> database" where
  "ProductLine_save clean_fields db self =
     (case full_clean (clean_fields db self) (ProductLine_clean db self) [] of
        Inl e \<Rightarrow> (Inl e, db)
      | Inr u \<Rightarrow> (Inr (), ProductLine_super_save db self))"

section \<open>ProductImage (product/models.py)\<close>

fun ProductImage_clean_loop :: "ProductImage \<Rightarrow> ProductImage_row list \<Rightarrow> error + unit" where
  "ProductImage_clean_loop self [] = Inr ()"
| "ProductImage_clean_loop self (obj # query_set) =
     (if image_id self \<noteq> Some (img_id obj) \<and> image_order self = Some (img_order obj)
      then Inl (ValidationError [''Duplicate value.''])
      else ProductImage_clean_loop self query_set)"

definition ProductImage_clean :: "database \<Rightarrow> ProductImage \<Rightarrow> error + unit" where
  "ProductImage_clean db self =
     (let query_set =
        filter (\<lambda>obj. img_product_line obj = image_product_line self) (product_images db)
      in ProductImage_clean_loop self query_set)"

definition ProductImage_to_row :: "ProductImage \<Rightarrow> int \<Rightarrow> pk \<Rightarrow> ProductImage_row" where
  "ProductImage_to_row self v i =
     \<lparr>img_id = i, img_alternative_text = image_alternative_text self,
      img_url = image_url self, img_order = v,
      img_product_line = image_product_line self\<rparr>"

definition ProductImage_super_save :: "database \<Rightarrow> ProductImage \<Rightarrow> database" where
  "ProductImage_super_save db self =
     (let v = OrderField_pre_save img_order img_product_line (product_images db)
                (image_product_line self) (image_order self)
      in db\<lparr>product_images :=
               Model_save img_id (ProductImage_to_row self v) (image_id self)
                 (product_images db)\<rparr>)"

definition ProductImage_save ::
  "(database \<Rightarrow> ProductImage \<Rightarrow> string list) \<Rightarrow> database \<Rightarrow> ProductImage
     \<Rightarrow> (error + unit) \<times> database" where
  "ProductImage_save clean_fields db self =
     (case full_clean (clean_fields db self) (ProductImage_clean db self) [] of
        Inl e \<Rightarrow> (Inl e, db)
      | Inr u \<Rightarrow> (Inr (), ProductImage_super_save db self))"

section \<open>The join tables (product/models.py)\<close>

text \<open>
  \<open>ProductLineAttributeValue.clean\<close>. \<open>query_set\<close> is the \<open>exists()\<close> of the join with
  the same attribute value and product line; \<open>iqs\<close> is the list of primary keys of
  \<open>Attribute.objects.filter(attribute_value__product_line_attribute_value=self.product_line)\<close>,
  the attributes joined to their values and to the join rows of the product line.
\<close>

definition ProductLineAttributeValue_clean ::
  "database \<Rightarrow> ProductLineAttributeValue \<Rightarrow> error + unit" where
  "ProductLineAttributeValue_clean db self =
     (let query_set =
        list_ex (\<lambda>j. plav_attribute_value j = av_id (lav_attribute_value self) \<and>
                      plav_product_line j = lav_product_line self)
          (product_line_attribute_values db)
      in if \<not> query_set then
           (let iqs = [attr_id a.
                        a \<leftarrow> attributes db,
                        v \<leftarrow> attribute_values db, av_attribute v = attr_id a,
                        j \<leftarrow> product_line_attribute_values db,
                        plav_attribute_value j = av_id v,
                        plav_product_line j = lav_product_line self]
            in if av_attribute (lav_attribute_value self) \<in> set iqs
               then Inl (ValidationError [''Duplicate attribute exists''])
               else Inr ())
         else Inr ())"

text \<open>
  \<open>Meta.unique_together = ('attribute_value', 'product_line')\<close> is checked twice by the
  framework: by \<open>validate_unique\<close> inside \<open>full_clean\<close> (a validation message, the
  instance's own row left out when it has one), and by the database on the write
  (\<open>IntegrityError\<close>).
\<close>

definition ProductLineAttributeValue_validate_unique ::
  "database \<Rightarrow> ProductLineAttributeValue \<Rightarrow> string list" where
  "ProductLineAttributeValue_validate_unique db self =
     (let qs = filter (\<lambda>j. plav_attribute_value j = av_id (lav_attribute_value self) \<and>
                           plav_product_line j = lav_product_line self)
                 (product_line_attribute_values db);
          qs = (case lav_id self of
                  Some i \<Rightarrow> filter (\<lambda>j. plav_id j \<noteq> i) qs
                | None \<Rightarrow> qs)
      in if qs \<noteq> []
         then [''Product line attribute value with this Attribute value and Product line already exists.'']
         else [])"

definition ProductLineAttributeValue_to_row ::
  "ProductLineAttributeValue \<Rightarrow> pk \<Rightarrow> ProductLineAttributeValue_row" where
  "ProductLineAttributeValue_to_row self i =
     \<lparr>plav_id = i, plav_attribute_value = av_id (lav_attribute_value self),
      plav_product_line = lav_product_line self\<rparr>"

definition ProductLineAttributeValue_super_save ::
  "database \<Rightarrow> ProductLineAttributeValue \<Rightarrow> (error + unit) \<times> database" where
  "ProductLineAttributeValue_super_save db self =
     (if list_ex (\<lambda>j. Some (plav_id j) \<noteq> lav_id self \<and>
                       plav_attribute_value j = av_id (lav_attribute_value self) \<and>
                       plav_product_line j = lav_product_line self)
           (product_line_attribute_values db)
      then (Inl IntegrityError, db)
      else (Inr (), db\<lparr>product_line_attribute_values :=
                          Model_save plav_id (ProductLineAttributeValue_to_row self)
                            (lav_id self) (product_line_attribute_values db)\<rparr>))"

definition ProductLineAttributeValue_save ::
  "(database \<Rightarrow> ProductLineAttributeValue \<Rightarrow> string list) \<Rightarrow> database
     \<Rightarrow> ProductLineAttributeValue \<Rightarrow> (error + unit) \<times> database" where
  "ProductLineAttributeValue_save clean_fields db self =
     (case full_clean (clean_fields db self) (ProductLineAttributeValue_clean db self)
             (ProductLineAttributeValue_validate_unique db self) of
        Inl e \<Rightarrow> (Inl e, db)
      | Inr u \<Rightarrow> ProductLineAttributeValue_super_save db self)"

text \<open>
  \<open>ProductAttributeValue\<close> overrides neither \<open>clean\<close> nor \<open>save\<close>: saving it is the
  framework's \<open>Model.save\<close>, and the only rule is the database's
  \<open>unique_together = ('attribute_value', 'product')\<close>.
\<close>

definition ProductAttributeValue_to_row ::
  "ProductAttributeValue \<Rightarrow> pk \<Rightarrow> ProductAttributeValue_row" where
  "ProductAttributeValue_to_row self i =
     \<lparr>pav_id = i, pav_attribute_value = av_id (pv_attribute_value self),
      pav_product = pv_product self\<rparr>"

definition ProductAttributeValue_save ::
  "database \<Rightarrow> ProductAttributeValue \<Rightarrow> (error + unit) \<times> database" where
  "ProductAttributeValue_save db self =
     (if list_ex (\<lambda>j. Some (pav_id j) \<noteq> pv_id self \<and>
                       pav_attribute_value j = av_id (pv_attribute_value self) \<and>
                       pav_product j = pv_product self)
           (product_attribute_values db)
      then (Inl IntegrityError, db)
      else (Inr (), db\<lparr>product_attribute_values :=
                          Model_save pav_id (ProductAttributeValue_to_row self)
                            (pv_id self) (product_attribute_values db)\<rparr>))"

section \<open>Sequences of saves and the stored-state invariants\<close>

datatype request = SaveLine ProductLine | SaveImage ProductImage

text \<open>
  A sequence of saves through the write path. A rejected save raises to its caller and
  the next save starts from the store as it stands.
\<close>

fun run_saves ::
  "(database \<Rightarrow> ProductLine \<Rightarrow> string list) \<Rightarrow> (database \<Rightarrow> ProductImage \<Rightarrow> string list)
     \<Rightarrow> database \<Rightarrow> request list \<Rightarrow> database" where
  "run_saves lf imf db [] = db"
| "run_saves lf imf db (SaveLine x # rs) =
     run_saves lf imf (snd (ProductLine_save lf db x)) rs"
| "run_saves lf imf db (SaveImage y # rs) =
     run_saves lf imf (snd (ProductImage_save imf db y)) rs"

fun all_succeed ::
  "(database \<Rightarrow> ProductLine \<Rightarrow> string list) \<Rightarrow> (database \<Rightarrow> ProductImage \<Rightarrow> string list)
     \<Rightarrow> database \<Rightarrow> request list \<Rightarrow> bool" where
  "all_succeed lf imf db [] = True"
| "all_succeed lf imf db (SaveLine x # rs) =
     (fst (ProductLine_save lf db x) = Inr () \<and>
      all_succeed lf imf (snd (ProductLine_save lf db x)) rs)"
| "all_succeed lf imf db (SaveImage y # rs) =
     (fst (ProductImage_save imf db y) = Inr () \<and>
      all_succeed lf imf (snd (ProductImage_save imf db y)) rs)"

text \<open>The primary keys of the two ordered tables are unique (the database's own rule).\<close>

definition pk_unique :: "database \<Rightarrow> bool" where
  "pk_unique db \<longleftrightarrow>
     distinct (map pl_id (product_lines db)) \<and> distinct (map img_id (product_images db))"

text \<open>
  No two stored product lines agree on (product, order), and no two stored images agree
  on (product line, order).
\<close>

definition order_unique :: "database \<Rightarrow> bool" where
  "order_unique db \<longleftrightarrow>
     distinct (map (\<lambda>r. (pl_product r, pl_order r)) (product_lines db)) \<and>
     distinct (map (\<lambda>r. (img_product_line r, img_order r)) (product_images db))"



section \<open>Python values and dictionaries\<close>

text \<open>
  The primitive values a serializer returns. A \<open>dict\<close> is an association list in
  insertion order with each key once.
\<close>

datatype pyval =
    PNone
  | PBool bool
  | PInt int
  | PStr string
  | PList "pyval list"
  | PDict "(pyval \<times> pyval) list"

type_synonym pydict = "(pyval \<times> pyval) list"

text \<open>\<open>d.update({k: v})\<close>: an existing key keeps its place and takes the new value.\<close>

fun dict_update :: "pydict \<Rightarrow> pyval \<Rightarrow> pyval \<Rightarrow> pydict" where
  "dict_update [] k v = [(k, v)]"
| "dict_update ((k', v') # d) k v =
     (if k' = k then (k', v) # d else (k', v') # dict_update d k v)"

text \<open>\<open>d.pop(k)\<close>: the value and the dictionary without the key, or \<open>KeyError\<close>.\<close>

definition dict_pop :: "pydict \<Rightarrow> pyval \<Rightarrow> error + (pyval \<times> pydict)" where
  "dict_pop d k =
     (case map_of d k of
        None \<Rightarrow> Inl KeyError
      | Some v \<Rightarrow> Inr (v, filter (\<lambda>kv. fst kv \<noteq> k) d))"

text \<open>
  \<open>xs[i]\<close> on a list: positions from the front for \<open>i \<ge> 0\<close>, from the back for
  \<open>i < 0\<close>, \<open>IndexError\<close> outside the list.
\<close>

definition list_index :: "pyval list \<Rightarrow> int \<Rightarrow> error + pyval" where
  "list_index xs i =
     (if 0 \<le> i \<and> i < int (length xs) then Inr (xs ! nat i)
      else if i < 0 \<and> - int (length xs) \<le> i then Inr (xs ! nat (int (length xs) + i))
      else Inl IndexError)"

text \<open>\<open>obj[k]\<close> on a dictionary or a list.\<close>

definition getitem :: "pyval \<Rightarrow> pyval \<Rightarrow> error + pyval" where
  "getitem obj k =
     (case obj of
        PDict d \<Rightarrow> (case map_of d k of None \<Rightarrow> Inl KeyError | Some v \<Rightarrow> Inr v)
      | PList xs \<Rightarrow> (case k of PInt i \<Rightarrow> list_index xs i | _ \<Rightarrow> Inl TypeError)
      | _ \<Rightarrow> Inl TypeError)"

text \<open>The truth value of an object, as \<open>if product_line:\<close> tests it.\<close>

fun truthy :: "pyval \<Rightarrow> bool" where
  "truthy PNone = False"
| "truthy (PBool b) = b"
| "truthy (PInt i) = (i \<noteq> 0)"
| "truthy (PStr s) = (s \<noteq> [])"
| "truthy (PList xs) = (xs \<noteq> [])"
| "truthy (PDict d) = (d \<noteq> [])"

text \<open>The items a \<open>for\<close> loop visits.\<close>

fun iterate :: "pyval \<Rightarrow> error + pyval list" where
  "iterate (PList xs) = Inr xs"
| "iterate (PDict d) = Inr (map fst d)"
| "iterate (PStr s) = Inr (map (\<lambda>c. PStr [c]) s)"
| "iterate v = Inl TypeError"

text \<open>A list comprehension over a function that may raise.\<close>

fun map_result :: "('a \<Rightarrow> error + 'b) \<Rightarrow> 'a list \<Rightarrow> error + 'b list" where
  "map_result f [] = Inr []"
| "map_result f (x # xs) =
     (case f x of
        Inl e \<Rightarrow> Inl e
      | Inr y \<Rightarrow> (case map_result f xs of Inl e \<Rightarrow> Inl e | Inr ys \<Rightarrow> Inr (y # ys)))"

section \<open>Serializers (product/serializers.py)\<close>

text \<open>
  The objects a serializer is given: a row with the related objects the framework
  attaches to it (\<open>av.attribute\<close>, \<open>line.product_image.all()\<close>,
  \<open>line.attribute_value.all()\<close>, \<open>product.product_line.all()\<close>,
  \<open>product.attribute_value.all()\<close>).
\<close>

record AttributeValue_obj =
  avo_row :: AttributeValue
  avo_attribute :: Attribute

record ProductLine_obj =
  plo_row :: ProductLine_row
  plo_product_image :: "ProductImage_row list"
  plo_attribute_value :: "AttributeValue_obj list"

record Product_obj =
  po_row :: Product
  po_product_line :: "ProductLine_obj list"
  po_attribute_value :: "AttributeValue_obj list"

text \<open>
  The declarative serializers: \<open>ModelSerializer.to_representation\<close> writes the declared
  fields in their order; a decimal is written as text, a nested serializer with
  \<open>many=True\<close> as the list of its children's documents.
\<close>

definition CategorySerializer_to_representation :: "Category \<Rightarrow> pydict" where
  "CategorySerializer_to_representation c =
     [(PStr ''category'', PStr (cat_name c)), (PStr ''slug'', PStr (cat_slug c))]"

definition ProductImageSerializer_to_representation :: "ProductImage_row \<Rightarrow> pydict" where
  "ProductImageSerializer_to_representation m =
     [(PStr ''alternative_text'', PStr (img_alternative_text m)),
      (PStr ''url'', PStr (img_url m)),
      (PStr ''order'', PInt (img_order m))]"

definition AttributeSerializer_to_representation :: "Attribute \<Rightarrow> pydict" where
  "AttributeSerializer_to_representation a =
     [(PStr ''id'', PInt (int (attr_id a))), (PStr ''name'', PStr (attr_name a))]"

definition AttributeValueSerializer_to_representation :: "AttributeValue_obj \<Rightarrow> pydict" where
  "AttributeValueSerializer_to_representation v =
     [(PStr ''id'', PInt (int (av_id (avo_row v)))),
      (PStr ''attribute'', PDict (AttributeSerializer_to_representation (avo_attribute v))),
      (PStr ''attribute_value'', PStr (av_attribute_value (avo_row v)))]"

text \<open>
  The loop shared by \<open>ProductLineSerializer\<close> and \<open>ProductSerializer\<close>:
  \<open>for key in av_data: attr_values.update({key['attribute'][field]: key['attribute_value']})\<close>
  with \<open>field\<close> \<open>'id'\<close> or \<open>'name'\<close>.
\<close>

fun attr_values_loop :: "string \<Rightarrow> pyval list \<Rightarrow> pydict \<Rightarrow> error + pydict" where
  "attr_values_loop field [] attr_values = Inr attr_values"
| "attr_values_loop field (key # av_data) attr_values =
     (case getitem key (PStr ''attribute'') of
        Inl e \<Rightarrow> Inl e
      | Inr a \<Rightarrow>
          (case getitem a (PStr field) of
             Inl e \<Rightarrow> Inl e
           | Inr k \<Rightarrow>
               (case getitem key (PStr ''attribute_value'') of
                  Inl e \<Rightarrow> Inl e
                | Inr v \<Rightarrow> attr_values_loop field av_data (dict_update attr_values k v))))"

definition flatten_attribute_value :: "string \<Rightarrow> string \<Rightarrow> pydict \<Rightarrow> error + pydict" where
  "flatten_attribute_value field target data =
     (case dict_pop data (PStr ''attribute_value'') of
        Inl e \<Rightarrow> Inl e
      | Inr (av_data, data') \<Rightarrow>
          (case iterate av_data of
             Inl e \<Rightarrow> Inl e
           | Inr items \<Rightarrow>
               (case attr_values_loop field items [] of
                  Inl e \<Rightarrow> Inl e
                | Inr attr_values \<Rightarrow>
                    Inr (dict_update data' (PStr target) (PDict attr_values)))))"

definition ProductLineSerializer_super_to_representation :: "ProductLine_obj \<Rightarrow> pydict" where
  "ProductLineSerializer_super_to_representation instance =
     [(PStr ''price'', PStr (pl_price (plo_row instance))),
      (PStr ''sku'', PStr (pl_sku (plo_row instance))),
      (PStr ''stock_qty'', PInt (pl_stock_qty (plo_row instance))),
      (PStr ''order'', PInt (pl_order (plo_row instance))),
      (PStr ''product_image'',
         PList (map (PDict \<circ> ProductImageSerializer_to_representation)
                  (plo_product_image instance))),
      (PStr ''attribute_value'',
         PList (map (PDict \<circ> AttributeValueSerializer_to_representation)
                  (plo_attribute_value instance)))]"

definition ProductLineSerializer_to_representation :: "ProductLine_obj \<Rightarrow> error + pydict" where
  "ProductLineSerializer_to_representation instance =
     (let data = ProductLineSerializer_super_to_representation instance
      in flatten_attribute_value ''id'' ''specification'' data)"

definition ProductSerializer_super_to_representation :: "Product_obj \<Rightarrow> error + pydict" where
  "ProductSerializer_super_to_representation instance =
     (case map_result ProductLineSerializer_to_representation (po_product_line instance) of
        Inl e \<Rightarrow> Inl e
      | Inr lines \<Rightarrow>
          Inr [(PStr ''name'', PStr (prod_name (po_row instance))),
               (PStr ''slug'', PStr (prod_slug (po_row instance))),
               (PStr ''pid'', PStr (prod_pid (po_row instance))),
               (PStr ''description'', PStr (prod_description (po_row instance))),
               (PStr ''product_line'', PList (map PDict lines)),
               (PStr ''attribute_value'',
                  PList (map (PDict \<circ> AttributeValueSerializer_to_representation)
                           (po_attribute_value instance)))])"

definition ProductSerializer_to_representation :: "Product_obj \<Rightarrow> error + pydict" where
  "ProductSerializer_to_representation instance =
     (case ProductSerializer_super_to_representation instance of
        Inl e \<Rightarrow> Inl e
      | Inr data \<Rightarrow> flatten_attribute_value ''name'' ''attribute'' data)"

definition ProductLineCategorySerializer_to_representation :: "ProductLine_obj \<Rightarrow> pydict" where
  "ProductLineCategorySerializer_to_representation instance =
     [(PStr ''price'', PStr (pl_price (plo_row instance))),
      (PStr ''product_image'',
         PList (map (PDict \<circ> ProductImageSerializer_to_representation)
                  (plo_product_image instance)))]"

definition ProductCategorySerializer_super_to_representation :: "Product_obj \<Rightarrow> pydict" where
  "ProductCategorySerializer_super_to_representation instance =
     [(PStr ''name'', PStr (prod_name (po_row instance))),
      (PStr ''slug'', PStr (prod_slug (po_row instance))),
      (PStr ''pid'', PStr (prod_pid (po_row instance))),
      (PStr ''created_at'', PStr (prod_created_at (po_row instance))),
      (PStr ''product_line'',
         PList (map (PDict \<circ> ProductLineCategorySerializer_to_representation)
                  (po_product_line instance)))]"

definition ProductCategorySerializer_to_representation :: "Product_obj \<Rightarrow> error + pydict" where
  "ProductCategorySerializer_to_representation instance =
     (let data = ProductCategorySerializer_super_to_representation instance in
      case dict_pop data (PStr ''product_line'') of
        Inl e \<Rightarrow> Inl e
      | Inr (product_line, data') \<Rightarrow>
          if truthy product_line then
            (case getitem product_line (PInt 0) of
               Inl e \<Rightarrow> Inl e
             | Inr item \<Rightarrow>
                 (case getitem item (PStr ''price'') of
                    Inl e \<Rightarrow> Inl e
                  | Inr price \<Rightarrow>
                      (case getitem item (PStr ''product_image'') of
                         Inl e \<Rightarrow> Inl e
                       | Inr product_image \<Rightarrow>
                           Inr (dict_update (dict_update data' (PStr ''price'') price)
                                  (PStr ''image'') product_image))))
          else Inr data')"

section \<open>Views (product/views.py)\<close>

definition IsActiveQueryset_is_active :: "('r \<Rightarrow> bool) \<Rightarrow> 'r list \<Rightarrow> 'r list" where
  "IsActiveQueryset_is_active is_active rows = filter is_active rows"

text \<open>Following the relations of a row (the framework's related managers).\<close>

definition load_attribute_values :: "database \<Rightarrow> pk list \<Rightarrow> AttributeValue_obj list" where
  "load_attribute_values db ids =
     [\<lparr>avo_row = v, avo_attribute = a\<rparr>.
        i \<leftarrow> ids,
        v \<leftarrow> attribute_values db, av_id v = i,
        a \<leftarrow> attributes db, attr_id a = av_attribute v]"

definition load_product_line :: "database \<Rightarrow> ProductLine_row \<Rightarrow> ProductLine_obj" where
  "load_product_line db l =
     \<lparr>plo_row = l,
      plo_product_image = filter (\<lambda>m. img_product_line m = pl_id l) (product_images db),
      plo_attribute_value =
        load_attribute_values db
          [plav_attribute_value j.
             j \<leftarrow> product_line_attribute_values db, plav_product_line j = pl_id l]\<rparr>"

definition load_product :: "database \<Rightarrow> Product \<Rightarrow> Product_obj" where
  "load_product db p =
     \<lparr>po_row = p,
      po_product_line =
        map (load_product_line db)
          (filter (\<lambda>l. pl_product l = prod_id p) (product_lines db)),
      po_attribute_value =
        load_attribute_values db
          [pav_attribute_value j.
             j \<leftarrow> product_attribute_values db, pav_product j = prod_id p]\<rparr>"

text \<open>
  \<open>CategoryViewSet.queryset = Category.objects.all().is_active()\<close> is one query set
  object, made when the class is defined and shared by every request. A query set reads
  the table the first time it is iterated and keeps the rows in its result cache; every
  later iteration of the same object returns the cached rows. \<open>list\<close> hands
  \<open>self.queryset\<close> itself to the serializer, which iterates it. The state of the view
  class is therefore the result cache: \<open>None\<close> until the first request.
\<close>

definition QuerySet_fetch_all :: "'r list \<Rightarrow> 'r list option \<Rightarrow> 'r list \<times> 'r list option" where
  "QuerySet_fetch_all matching result_cache =
     (case result_cache of
        None \<Rightarrow> (matching, Some matching)
      | Some rows \<Rightarrow> (rows, Some rows))"

definition CategoryViewSet_list ::
  "Category list option \<Rightarrow> database \<Rightarrow> pyval list \<times> Category list option" where
  "CategoryViewSet_list result_cache db =
     (let (rows, result_cache') =
        QuerySet_fetch_all (IsActiveQueryset_is_active cat_is_active (categories db))
          result_cache
      in (map (PDict \<circ> CategorySerializer_to_representation) rows, result_cache'))"

text \<open>
  \<open>ProductViewSet\<close> never iterates its class-level query set: \<open>retrieve\<close> and
  \<open>list_product_by_category_slug\<close> call \<open>.filter(...)\<close> on it, which makes a new query
  set with an empty cache on every request, so both read the table as it stands.
\<close>

definition ProductViewSet_retrieve :: "database \<Rightarrow> string \<Rightarrow> error + pyval list" where
  "ProductViewSet_retrieve db slug =
     (case map_result (ProductSerializer_to_representation \<circ> load_product db)
             (filter (\<lambda>p. prod_slug p = slug)
                (IsActiveQueryset_is_active prod_is_active (products db))) of
        Inl e \<Rightarrow> Inl e
      | Inr docs \<Rightarrow> Inr (map PDict docs))"

definition ProductViewSet_list_product_by_category_slug ::
  "database \<Rightarrow> string \<Rightarrow> error + pyval list" where
  "ProductViewSet_list_product_by_category_slug db slug =
     (case map_result (ProductCategorySerializer_to_representation \<circ> load_product db)
             [p. p \<leftarrow> IsActiveQueryset_is_active prod_is_active (products db),
                 c \<leftarrow> categories db, cat_id c = prod_category p, cat_slug c = slug] of
        Inl e \<Rightarrow> Inl e
      | Inr docs \<Rightarrow> Inr (map PDict docs))"

section \<open>An example store\<close>

text \<open>
  Two categories (one inactive), three products (one inactive, one without lines), the
  attributes Color and Size, three lines, one image, and the joins: product 1 holds both
  Red and Blue (two values of Color), line 1 holds Red.
\<close>

definition example_db :: database where
  "example_db =
     \<lparr>categories =
        [\<lparr>cat_id = 1, cat_name = ''Shoes'', cat_slug = ''shoes'', cat_is_active = True\<rparr>,
         \<lparr>cat_id = 2, cat_name = ''Hats'', cat_slug = ''hats'', cat_is_active = False\<rparr>],
      products =
        [\<lparr>prod_id = 1, prod_name = ''Boot'', prod_slug = ''boot'', prod_pid = ''p1'',
           prod_description = ''warm'', prod_is_active = True, prod_category = 1,
           prod_created_at = ''2024''\<rparr>,
         \<lparr>prod_id = 2, prod_name = ''Cap'', prod_slug = ''cap'', prod_pid = ''p2'',
           prod_description = ''sun'', prod_is_active = False, prod_category = 2,
           prod_created_at = ''2024''\<rparr>,
         \<lparr>prod_id = 3, prod_name = ''Clog'', prod_slug = ''clog'', prod_pid = ''p3'',
           prod_description = ''wood'', prod_is_active = True, prod_category = 1,
           prod_created_at = ''2025''\<rparr>],
      attributes =
        [\<lparr>attr_id = 1, attr_name = ''Color''\<rparr>, \<lparr>attr_id = 2, attr_name = ''Size''\<rparr>],
      attribute_values =
        [\<lparr>av_id = 1, av_attribute_value = ''Red'', av_attribute = 1\<rparr>,
         \<lparr>av_id = 2, av_attribute_value = ''Blue'', av_attribute = 1\<rparr>,
         \<lparr>av_id = 3, av_attribute_value = ''Large'', av_attribute = 2\<rparr>],
      product_lines =
        [\<lparr>pl_id = 1, pl_price = ''10.00'', pl_sku = ''a'', pl_stock_qty = 5,
           pl_is_active = True, pl_order = 1, pl_product = 1\<rparr>,
         \<lparr>pl_id = 2, pl_price = ''20.00'', pl_sku = ''b'', pl_stock_qty = 0,
           pl_is_active = True, pl_order = 7, pl_product = 2\<rparr>,
         \<lparr>pl_id = 3, pl_price = ''30.00'', pl_sku = ''c'', pl_stock_qty = 2,
           pl_is_active = False, pl_order = 2, pl_product = 1\<rparr>],
      product_images =
        [\<lparr>img_id = 1, img_alternative_text = ''front'', img_url = ''f.jpg'',
           img_order = 1, img_product_line = 1\<rparr>],
      product_attribute_values =
        [\<lparr>pav_id = 1, pav_attribute_value = 1, pav_product = 1\<rparr>,
         \<lparr>pav_id = 2, pav_attribute_value = 2, pav_product = 1\<rparr>],
      product_line_attribute_values =
        [\<lparr>plav_id = 1, plav_attribute_value = 1, plav_product_line = 1\<rparr>]\<rparr>"

definition no_line_errors :: "database \<Rightarrow> ProductLine \<Rightarrow> string list" where
  "no_line_errors db self = []"

definition no_image_errors :: "database \<Rightarrow> ProductImage \<Rightarrow> string list" where
  "no_image_errors db self = []"

definition no_join_errors :: "database \<Rightarrow> ProductLineAttributeValue \<Rightarrow> string list" where
  "no_join_errors db self = []"

definition new_line :: "int option \<Rightarrow> pk \<Rightarrow> ProductLine" where
  "new_line v p =
     \<lparr>line_id = None, line_price = ''5.00'', line_sku = ''n'', line_stock_qty = 1,
      line_is_active = False, line_order = v, line_product = p\<rparr>"

definition new_image :: "int option \<Rightarrow> pk \<Rightarrow> ProductImage" where
  "new_image v l =
     \<lparr>image_id = None, image_alternative_text = ''side'', image_url = ''s.jpg'',
      image_order = v, image_product_line = l\<rparr>"

definition red :: AttributeValue where
  "red = \<lparr>av_id = 1, av_attribute_value = ''Red'', av_attribute = 1\<rparr>"

definition blue :: AttributeValue where
  "blue = \<lparr>av_id = 2, av_attribute_value = ''Blue'', av_attribute = 1\<rparr>"

definition large :: AttributeValue where
  "large = \<lparr>av_id = 3, av_attribute_value = ''Large'', av_attribute = 2\<rparr>"

definition boot :: Product where
  "boot = \<lparr>prod_id = 1, prod_name = ''Boot'', prod_slug = ''boot'', prod_pid = ''p1'',
           prod_description = ''warm'', prod_is_active = True, prod_category = 1,
           prod_created_at = ''2024''\<rparr>"

definition clog :: Product where
  "clog = \<lparr>prod_id = 3, prod_name = ''Clog'', prod_slug = ''clog'', prod_pid = ''p3'',
           prod_description = ''wood'', prod_is_active = True, prod_category = 1,
           prod_created_at = ''2025''\<rparr>"

definition color :: Attribute where
  "color = \<lparr>attr_id = 1, attr_name = ''Color''\<rparr>"

definition example_db_closed :: database where
  "example_db_closed =
     example_db\<lparr>categories := map (\<lambda>c. c\<lparr>cat_is_active := False\<rparr>) (categories example_db)\<rparr>"

section \<open>Lemmas: the ordering field and the write path\<close>

lemma latest_None: "latest f rs = None \<longleftrightarrow> rs = []"
  by (induction rs) (auto split: option.splits)

lemma latest_Max: "latest f rs = Some m \<Longrightarrow> m \<in> set rs \<and> f m = Max (f ` set rs)"
proof (induction rs arbitrary: m)
  case Nil
  then show ?case by simp
next
  case (Cons r rs)
  show ?case
  proof (cases "latest f rs")
    case None
    then have "rs = []" by (simp add: latest_None)
    with Cons.prems None show ?thesis by simp
  next
    case (Some k)
    then have k: "k \<in> set rs" "f k = Max (f ` set rs)" using Cons.IH by auto
    then have ne: "f ` set rs \<noteq> {}" by auto
    have "Max (f ` set (r # rs)) = max (f r) (Max (f ` set rs))"
      using ne by simp
    with Cons.prems Some k show ?thesis
      by (auto split: if_splits simp: max_def)
  qed
qed

lemma pre_save_unset:
  "OrderField_pre_save f u rows p None =
     (if \<exists>r\<in>set rows. u r = p
      then Max (set (map f (filter (\<lambda>r. u r = p) rows))) + 1 else 1)"
proof (cases "latest f (filter (\<lambda>r. u r = p) rows)")
  case None
  then have "filter (\<lambda>r. u r = p) rows = []" by (simp add: latest_None)
  then have "\<not> (\<exists>r\<in>set rows. u r = p)" by (simp add: filter_empty_conv)
  with None show ?thesis by (simp add: OrderField_pre_save_def)
next
  case (Some m)
  from latest_Max [OF Some] have "m \<in> set rows" "u m = p"
    and "f m = Max (set (map f (filter (\<lambda>r. u r = p) rows)))" by auto
  with Some show ?thesis by (auto simp: OrderField_pre_save_def)
qed


lemma pre_save_above_siblings:
  assumes "r \<in> set rows" "u r = p"
  shows "f r < OrderField_pre_save f u rows p None"
proof -
  have "f r \<in> set (map f (filter (\<lambda>r. u r = p) rows))" using assms by auto
  then have "f r \<le> Max (set (map f (filter (\<lambda>r. u r = p) rows)))" by (intro Max_ge) auto
  with assms show ?thesis by (auto simp: pre_save_unset)
qed

lemma fresh_pk_above: "i \<in> set ids \<Longrightarrow> i < fresh_pk ids"
proof -
  assume "i \<in> set ids"
  then have "i \<le> Max (set (0 # ids))" by (intro Max_ge) auto
  also have "Max (set (0 # ids)) = fold max ids 0" by (rule Max.set_eq_fold)
  finally show ?thesis by (simp add: fresh_pk_def)
qed

lemma fresh_pk_new: "fresh_pk ids \<notin> set ids"
  using fresh_pk_above [of "fresh_pk ids" ids] by auto

lemma map_update_pk:
  "pk_of new = i \<Longrightarrow> map pk_of (map (\<lambda>r. if pk_of r = i then new else r) rows) = map pk_of rows"
  by (induction rows) auto

lemma Model_save_pk_distinct:
  assumes "distinct (map pk_of rows)" "\<And>i. pk_of (row_of i) = i"
  shows "distinct (map pk_of (Model_save pk_of row_of ident rows))"
proof (cases ident)
  case None
  with assms fresh_pk_new [of "map pk_of rows"] show ?thesis
    by (simp add: Model_save_def)
next
  case (Some i)
  with assms show ?thesis
    by (auto simp: Model_save_def map_update_pk simp del: map_map)
qed

lemma update_key_distinct:
  assumes "distinct (map pk_of rows)" "distinct (map key rows)"
    and "\<forall>r\<in>set rows. pk_of r \<noteq> i \<longrightarrow> key r \<noteq> key new"
  shows "distinct (map key (map (\<lambda>r. if pk_of r = i then new else r) rows))"
  using assms
proof (induction rows)
  case Nil
  then show ?case by simp
next
  case (Cons a rows)
  show ?case
  proof (cases "pk_of a = i")
    case True
    have "pk_of a \<notin> pk_of ` set rows" using Cons.prems(1) by simp
    then have "\<forall>r\<in>set rows. pk_of r \<noteq> i" using True by (metis imageI)
    then have same: "map (\<lambda>r. if pk_of r = i then new else r) rows = rows"
      by (induction rows) auto
    have "key new \<notin> set (map key rows)"
      using Cons.prems(3) \<open>\<forall>r\<in>set rows. pk_of r \<noteq> i\<close> by auto
    with True same Cons.prems(2) show ?thesis by simp
  next
    case False
    have ih: "distinct (map key (map (\<lambda>r. if pk_of r = i then new else r) rows))"
      using Cons by simp
    have "key a \<noteq> key new" using Cons.prems(3) False by simp
    moreover have "key a \<notin> key ` set rows" using Cons.prems(2) by simp
    ultimately have "key a \<notin> set (map key (map (\<lambda>r. if pk_of r = i then new else r) rows))"
      by (auto split: if_splits)
    with False ih show ?thesis by simp
  qed
qed

lemma Model_save_key_distinct:
  assumes "distinct (map pk_of rows)" "distinct (map key rows)"
    and "\<And>i. key (row_of i) = k"
    and "\<forall>r\<in>set rows. Some (pk_of r) \<noteq> ident \<longrightarrow> key r \<noteq> k"
  shows "distinct (map key (Model_save pk_of row_of ident rows))"
proof (cases ident)
  case None
  with assms show ?thesis by (auto simp: Model_save_def)
next
  case (Some i)
  show ?thesis
  proof (cases "i \<in> set (map pk_of rows)")
    case True
    have "\<forall>r\<in>set rows. pk_of r \<noteq> i \<longrightarrow> key r \<noteq> key (row_of i)"
      using assms(3,4) Some by auto
    from update_key_distinct [OF assms(1,2) this] True Some show ?thesis
      by (simp add: Model_save_def)
  next
    case False
    then have "\<forall>r\<in>set rows. Some (pk_of r) \<noteq> ident" using Some by auto
    with assms False Some show ?thesis by (auto simp: Model_save_def)
  qed
qed

lemma ProductLine_clean_loop_iff:
  "ProductLine_clean_loop self rs =
     (if \<exists>obj\<in>set rs. Some (pl_id obj) \<noteq> line_id self \<and> Some (pl_order obj) = line_order self
      then Inl (ValidationError [''Duplicate value.'']) else Inr ())"
  by (induction rs) auto

lemma ProductImage_clean_loop_iff:
  "ProductImage_clean_loop self rs =
     (if \<exists>obj\<in>set rs. Some (img_id obj) \<noteq> image_id self \<and> Some (img_order obj) = image_order self
      then Inl (ValidationError [''Duplicate value.'']) else Inr ())"
  by (induction rs) auto

lemma ProductLine_clean_iff:
  "ProductLine_clean db x =
     (if \<exists>obj\<in>set (product_lines db). pl_product obj = line_product x \<and>
           Some (pl_id obj) \<noteq> line_id x \<and> Some (pl_order obj) = line_order x
      then Inl (ValidationError [''Duplicate value.'']) else Inr ())"
  by (auto simp: ProductLine_clean_def ProductLine_clean_loop_iff)

lemma ProductImage_clean_iff:
  "ProductImage_clean db y =
     (if \<exists>obj\<in>set (product_images db). img_product_line obj = image_product_line y \<and>
           Some (img_id obj) \<noteq> image_id y \<and> Some (img_order obj) = image_order y
      then Inl (ValidationError [''Duplicate value.'']) else Inr ())"
  by (auto simp: ProductImage_clean_def ProductImage_clean_loop_iff)

lemma ProductLine_save_cases:
  "ProductLine_save lf db x =
     (if lf db x = [] \<and> ProductLine_clean db x = Inr ()
      then (Inr (), ProductLine_super_save db x)
      else (Inl (ValidationError (lf db x @ messages (ProductLine_clean db x))), db))"
  by (auto simp: ProductLine_save_def full_clean_def messages_def ProductLine_clean_iff)

lemma ProductImage_save_cases:
  "ProductImage_save imf db y =
     (if imf db y = [] \<and> ProductImage_clean db y = Inr ()
      then (Inr (), ProductImage_super_save db y)
      else (Inl (ValidationError (imf db y @ messages (ProductImage_clean db y))), db))"
  by (auto simp: ProductImage_save_def full_clean_def messages_def ProductImage_clean_iff)

lemma ProductLine_super_save_inv:
  assumes pk: "distinct (map pl_id (product_lines db))"
    and ou: "distinct (map (\<lambda>r. (pl_product r, pl_order r)) (product_lines db))"
    and ok: "ProductLine_clean db x = Inr ()"
  shows "distinct (map pl_id (product_lines (ProductLine_super_save db x)))"
    and "distinct (map (\<lambda>r. (pl_product r, pl_order r))
           (product_lines (ProductLine_super_save db x)))"
    and "product_images (ProductLine_super_save db x) = product_images db"
proof -
  let ?v = "OrderField_pre_save pl_order pl_product (product_lines db)
              (line_product x) (line_order x)"
  show "distinct (map pl_id (product_lines (ProductLine_super_save db x)))"
    using Model_save_pk_distinct [OF pk, of "ProductLine_to_row x ?v" "line_id x"]
    by (simp add: ProductLine_super_save_def ProductLine_to_row_def)
  have other: "\<forall>r\<in>set (product_lines db). Some (pl_id r) \<noteq> line_id x \<longrightarrow>
      (pl_product r, pl_order r) \<noteq> (line_product x, ?v)"
  proof (cases "line_order x")
    case None
    then show ?thesis
      using pre_save_above_siblings [of _ "product_lines db" pl_product "line_product x" pl_order]
      by fastforce
  next
    case (Some v)
    then have "?v = v" by (simp add: OrderField_pre_save_def)
    with ok Some show ?thesis
      by (auto simp: ProductLine_clean_iff split: if_splits)
  qed
  have "distinct (map (\<lambda>r. (pl_product r, pl_order r))
          (Model_save pl_id (ProductLine_to_row x ?v) (line_id x) (product_lines db)))"
    by (rule Model_save_key_distinct [OF pk ou _ other])
       (simp add: ProductLine_to_row_def)
  then show "distinct (map (\<lambda>r. (pl_product r, pl_order r))
           (product_lines (ProductLine_super_save db x)))"
    by (simp add: ProductLine_super_save_def)
  show "product_images (ProductLine_super_save db x) = product_images db"
    by (simp add: ProductLine_super_save_def)
qed

lemma ProductImage_super_save_inv:
  assumes pk: "distinct (map img_id (product_images db))"
    and ou: "distinct (map (\<lambda>r. (img_product_line r, img_order r)) (product_images db))"
    and ok: "ProductImage_clean db y = Inr ()"
  shows "distinct (map img_id (product_images (ProductImage_super_save db y)))"
    and "distinct (map (\<lambda>r. (img_product_line r, img_order r))
           (product_images (ProductImage_super_save db y)))"
    and "product_lines (ProductImage_super_save db y) = product_lines db"
proof -
  let ?v = "OrderField_pre_save img_order img_product_line (product_images db)
              (image_product_line y) (image_order y)"
  show "distinct (map img_id (product_images (ProductImage_super_save db y)))"
    using Model_save_pk_distinct [OF pk, of "ProductImage_to_row y ?v" "image_id y"]
    by (simp add: ProductImage_super_save_def ProductImage_to_row_def)
  have other: "\<forall>r\<in>set (product_images db). Some (img_id r) \<noteq> image_id y \<longrightarrow>
      (img_product_line r, img_order r) \<noteq> (image_product_line y, ?v)"
  proof (cases "image_order y")
    case None
    then show ?thesis
      using pre_save_above_siblings
        [of _ "product_images db" img_product_line "image_product_line y" img_order]
      by fastforce
  next
    case (Some v)
    then have "?v = v" by (simp add: OrderField_pre_save_def)
    with ok Some show ?thesis
      by (auto simp: ProductImage_clean_iff split: if_splits)
  qed
  have "distinct (map (\<lambda>r. (img_product_line r, img_order r))
          (Model_save img_id (ProductImage_to_row y ?v) (image_id y) (product_images db)))"
    by (rule Model_save_key_distinct [OF pk ou _ other])
       (simp add: ProductImage_to_row_def)
  then show "distinct (map (\<lambda>r. (img_product_line r, img_order r))
           (product_images (ProductImage_super_save db y)))"
    by (simp add: ProductImage_super_save_def)
  show "product_lines (ProductImage_super_save db y) = product_lines db"
    by (simp add: ProductImage_super_save_def)
qed

lemma ProductLine_save_inv:
  assumes "pk_unique db" "order_unique db"
  shows "pk_unique (snd (ProductLine_save lf db x)) \<and>
         order_unique (snd (ProductLine_save lf db x))"
proof (cases "lf db x = [] \<and> ProductLine_clean db x = Inr ()")
  case True
  with assms ProductLine_super_save_inv [of db x] show ?thesis
    by (simp add: ProductLine_save_cases pk_unique_def order_unique_def)
next
  case False
  with assms show ?thesis by (auto simp: ProductLine_save_cases)
qed

lemma ProductImage_save_inv:
  assumes "pk_unique db" "order_unique db"
  shows "pk_unique (snd (ProductImage_save imf db y)) \<and>
         order_unique (snd (ProductImage_save imf db y))"
proof (cases "imf db y = [] \<and> ProductImage_clean db y = Inr ()")
  case True
  with assms ProductImage_super_save_inv [of db y] show ?thesis
    by (simp add: ProductImage_save_cases pk_unique_def order_unique_def)
next
  case False
  with assms show ?thesis by (auto simp: ProductImage_save_cases)
qed



lemma distinct_map_eq:
  "distinct (map key rows) \<Longrightarrow> a \<in> set rows \<Longrightarrow> b \<in> set rows \<Longrightarrow> key a = key b \<Longrightarrow> a = b"
  by (auto simp: distinct_map dest: inj_onD)







lemma ProductLineAttributeValue_save_failed:
  "fst (ProductLineAttributeValue_save jf db j) = Inl e \<Longrightarrow>
     snd (ProductLineAttributeValue_save jf db j) = db"
  by (auto simp: ProductLineAttributeValue_save_def ProductLineAttributeValue_super_save_def
      split: sum.splits if_splits)


section \<open>The ordering field assigns the next position (C1)\<close>



section \<open>Saves keep sibling orders distinct (C2)\<close>

text \<open>
  Claim C2. Starting from a store in which no two lines of one product and no two images
  of one product line share an order (and primary keys are unique, as the database
  guarantees), every sequence of saves of lines and images, with the order auto-assigned
  or explicit, inserting or updating, ends in such a store again. Rejected saves leave
  the store as it is, so the sequences in which every save succeeds are included.
\<close>

theorem saves_keep_orders_unique:
  "pk_unique db \<Longrightarrow> order_unique db \<Longrightarrow>
     pk_unique (run_saves lf imf db reqs) \<and> order_unique (run_saves lf imf db reqs)"
proof (induction reqs arbitrary: db)
  case Nil
  then show ?case by simp
next
  case (Cons q reqs)
  show ?case
  proof (cases q)
    case (SaveLine x)
    with Cons.prems ProductLine_save_inv [of db lf x] Cons.IH show ?thesis by simp
  next
    case (SaveImage y)
    with Cons.prems ProductImage_save_inv [of db imf y] Cons.IH show ?thesis by simp
  qed
qed

theorem saves_keep_orders_unique_witness:
  "pk_unique example_db \<and> order_unique example_db
   \<and> all_succeed no_line_errors no_image_errors example_db
        [SaveLine (new_line None 1), SaveLine (new_line (Some 9) 1),
         SaveImage (new_image None 1)]
   \<and> order_unique (run_saves no_line_errors no_image_errors example_db
        [SaveLine (new_line None 1), SaveLine (new_line (Some 9) 1),
         SaveImage (new_image None 1)])"
proof -
  have inv: "pk_unique example_db" "order_unique example_db"
    by (simp_all add: example_db_def pk_unique_def order_unique_def)
  have ok: "all_succeed no_line_errors no_image_errors example_db
        [SaveLine (new_line None 1), SaveLine (new_line (Some 9) 1),
         SaveImage (new_image None 1)]"
    by (simp add: example_db_def new_line_def new_image_def no_line_errors_def
        no_image_errors_def ProductLine_save_def ProductImage_save_def full_clean_def
        messages_def ProductLine_clean_def ProductImage_clean_def ProductLine_super_save_def
        ProductImage_super_save_def Model_save_def OrderField_pre_save_def fresh_pk_def
        ProductLine_to_row_def ProductImage_to_row_def)
  show ?thesis
    using inv ok saves_keep_orders_unique [OF inv, of no_line_errors no_image_errors
        "[SaveLine (new_line None 1), SaveLine (new_line (Some 9) 1),
          SaveImage (new_image None 1)]"]
    by simp
qed

section \<open>The order validators (C3)\<close>



section \<open>A rejected save writes nothing (C5)\<close>

text \<open>
  Claim C5. \<open>save\<close> runs \<open>full_clean\<close> on the store as it stands before anything is
  written. Whenever saving a product line, or a join of a product line and an attribute
  value, ends in an error, the store after the call is the store before it.
\<close>

theorem rejected_save_leaves_store:
  "(fst (ProductLine_save lf db x) = Inl e \<longrightarrow> snd (ProductLine_save lf db x) = db)
   \<and> (fst (ProductLineAttributeValue_save jf db j) = Inl e' \<longrightarrow>
        snd (ProductLineAttributeValue_save jf db j) = db)"
proof -
  have "fst (ProductLine_save lf db x) = Inl e \<longrightarrow> snd (ProductLine_save lf db x) = db"
    by (simp add: ProductLine_save_cases)
  then show ?thesis using ProductLineAttributeValue_save_failed [of jf db j e'] by blast
qed

theorem rejected_save_leaves_store_witness:
  "fst (ProductLine_save no_line_errors example_db (new_line (Some 2) 1)) =
     Inl (ValidationError [''Duplicate value.''])
   \<and> snd (ProductLine_save no_line_errors example_db (new_line (Some 2) 1)) = example_db
   \<and> fst (ProductLineAttributeValue_save no_join_errors example_db
          \<lparr>lav_id = None, lav_attribute_value = blue, lav_product_line = 1\<rparr>) =
     Inl (ValidationError [''Duplicate attribute exists''])
   \<and> snd (ProductLineAttributeValue_save no_join_errors example_db
          \<lparr>lav_id = None, lav_attribute_value = blue, lav_product_line = 1\<rparr>) = example_db"
proof -
  have a: "fst (ProductLine_save no_line_errors example_db (new_line (Some 2) 1)) =
     Inl (ValidationError [''Duplicate value.''])"
    by (simp add: ProductLine_save_def full_clean_def messages_def ProductLine_clean_def
        example_db_def new_line_def no_line_errors_def)
  have b: "fst (ProductLineAttributeValue_save no_join_errors example_db
          \<lparr>lav_id = None, lav_attribute_value = blue, lav_product_line = 1\<rparr>) =
     Inl (ValidationError [''Duplicate attribute exists''])"
    by (simp add: ProductLineAttributeValue_save_def full_clean_def messages_def
        ProductLineAttributeValue_clean_def ProductLineAttributeValue_validate_unique_def
        example_db_def blue_def no_join_errors_def)
  show ?thesis
    using a b rejected_save_leaves_store [where lf = no_line_errors and db = example_db
        and x = "new_line (Some 2) 1" and e = "ValidationError [''Duplicate value.'']"
        and jf = no_join_errors
        and j = "\<lparr>lav_id = None, lav_attribute_value = blue, lav_product_line = 1\<rparr>"
        and e' = "ValidationError [''Duplicate attribute exists'']"]
    by simp
qed

section \<open>Lemmas: the join validator, dictionaries and the serializers\<close>

lemma iqs_member:
  "k \<in> set [attr_id a.
              a \<leftarrow> A,
              v \<leftarrow> V, av_attribute v = attr_id a,
              j \<leftarrow> J,
              plav_attribute_value j = av_id v,
              plav_product_line j = line] \<longleftrightarrow>
     (\<exists>a\<in>set A. \<exists>v\<in>set V. \<exists>j\<in>set J.
        attr_id a = k \<and> av_attribute v = attr_id a \<and> plav_attribute_value j = av_id v \<and>
        plav_product_line j = line)"
  by (simp add: Bex_def) blast

lemma ProductLineAttributeValue_clean_iff:
  "ProductLineAttributeValue_clean db self =
     (if \<not> (\<exists>j\<in>set (product_line_attribute_values db).
              plav_attribute_value j = av_id (lav_attribute_value self) \<and>
              plav_product_line j = lav_product_line self) \<and>
         (\<exists>a\<in>set (attributes db). \<exists>v\<in>set (attribute_values db).
            \<exists>j\<in>set (product_line_attribute_values db).
              attr_id a = av_attribute (lav_attribute_value self) \<and>
              av_attribute v = attr_id a \<and> plav_attribute_value j = av_id v \<and>
              plav_product_line j = lav_product_line self)
      then Inl (ValidationError [''Duplicate attribute exists''])
      else Inr ())"
  unfolding ProductLineAttributeValue_clean_def Let_def iqs_member list_ex_iff
  by (auto; blast)

lemma ProductLineAttributeValue_validate_unique_iff:
  "ProductLineAttributeValue_validate_unique db self =
     (if \<exists>j\<in>set (product_line_attribute_values db).
           Some (plav_id j) \<noteq> lav_id self \<and>
           plav_attribute_value j = av_id (lav_attribute_value self) \<and>
           plav_product_line j = lav_product_line self
      then [''Product line attribute value with this Attribute value and Product line already exists.'']
      else [])"
  by (cases "lav_id self")
     (auto simp: ProductLineAttributeValue_validate_unique_def filter_empty_conv)

lemma update_same_row:
  "distinct (map pk_of rows) \<Longrightarrow> r \<in> set rows \<Longrightarrow>
     map (\<lambda>x. if pk_of x = pk_of r then r else x) rows = rows"
proof (induction rows)
  case Nil
  then show ?case by simp
next
  case (Cons a rows)
  show ?case
  proof (cases "a = r")
    case True
    have "pk_of r \<notin> pk_of ` set rows" using Cons.prems(1) True by simp
    then have "\<forall>x\<in>set rows. pk_of x \<noteq> pk_of r" by (metis imageI)
    then have "map (\<lambda>x. if pk_of x = pk_of r then r else x) rows = rows"
      by (induction rows) auto
    with True show ?thesis by simp
  next
    case False
    then have "r \<in> set rows" using Cons.prems(2) by simp
    moreover have "pk_of a \<notin> pk_of ` set rows" using Cons.prems(1) by simp
    ultimately have "pk_of a \<noteq> pk_of r" by (metis imageI)
    with Cons \<open>r \<in> set rows\<close> show ?thesis by simp
  qed
qed

lemma join_resave:
  assumes j: "j \<in> set (product_line_attribute_values db)"
    and pk: "distinct (map plav_id (product_line_attribute_values db))"
    and pairs: "distinct (map (\<lambda>j. (plav_attribute_value j, plav_product_line j))
                  (product_line_attribute_values db))"
    and self: "lav_id self = Some (plav_id j)"
      "av_id (lav_attribute_value self) = plav_attribute_value j"
      "lav_product_line self = plav_product_line j"
    and fields: "jf db self = []"
  shows "ProductLineAttributeValue_save jf db self = (Inr (), db)"
proof -
  have same: "k = j" if "k \<in> set (product_line_attribute_values db)"
    "plav_attribute_value k = plav_attribute_value j"
    "plav_product_line k = plav_product_line j" for k
    using distinct_map_eq [of "\<lambda>j. (plav_attribute_value j, plav_product_line j)"
        "product_line_attribute_values db" k j] pairs j that by simp
  have clean: "ProductLineAttributeValue_clean db self = Inr ()"
    using j self by (auto simp: ProductLineAttributeValue_clean_iff)
  have uniq: "ProductLineAttributeValue_validate_unique db self = []"
    using same self by (auto simp: ProductLineAttributeValue_validate_unique_iff)
  have noviol: "\<not> list_ex (\<lambda>k. Some (plav_id k) \<noteq> lav_id self \<and>
                       plav_attribute_value k = av_id (lav_attribute_value self) \<and>
                       plav_product_line k = lav_product_line self)
           (product_line_attribute_values db)"
    using same self by (auto simp: list_ex_iff)
  have row: "ProductLineAttributeValue_to_row self (plav_id j) = j"
    using self by (simp add: ProductLineAttributeValue_to_row_def)
  have "Model_save plav_id (ProductLineAttributeValue_to_row self) (lav_id self)
          (product_line_attribute_values db) =
        map (\<lambda>r. if plav_id r = plav_id j
                 then ProductLineAttributeValue_to_row self (plav_id j) else r)
          (product_line_attribute_values db)"
    using j self(1) by (simp add: Model_save_def)
  also have "\<dots> = map (\<lambda>r. if plav_id r = plav_id j then j else r)
          (product_line_attribute_values db)"
    by (simp only: row)
  also have "\<dots> = product_line_attribute_values db"
    by (rule update_same_row [OF pk j])
  finally have "Model_save plav_id (ProductLineAttributeValue_to_row self) (lav_id self)
          (product_line_attribute_values db) = product_line_attribute_values db" .
  with clean uniq noviol fields show ?thesis
    by (simp add: ProductLineAttributeValue_save_def full_clean_def messages_def
        ProductLineAttributeValue_super_save_def)
qed

lemma map_of_dict_update: "map_of (dict_update d k v) = (map_of d)(k \<mapsto> v)"
  by (induction d) (auto simp: fun_eq_iff)

lemma keys_dict_update:
  "map fst (dict_update d k v) = (if k \<in> fst ` set d then map fst d else map fst d @ [k])"
  by (induction d) (auto split: if_splits)

lemma distinct_dict_update:
  "distinct (map fst d) \<Longrightarrow> distinct (map fst (dict_update d k v))"
  by (simp add: keys_dict_update)

lemma getitem_dict: "getitem (PDict d) k = (case map_of d k of None \<Rightarrow> Inl KeyError | Some v \<Rightarrow> Inr v)"
  by (simp add: getitem_def)

lemma attr_values_loop_id:
  "attr_values_loop ''id'' (map (PDict \<circ> AttributeValueSerializer_to_representation) avs) acc =
     Inr (fold (\<lambda>v d. dict_update d (PInt (int (attr_id (avo_attribute v))))
                        (PStr (av_attribute_value (avo_row v)))) avs acc)"
  by (induction avs arbitrary: acc)
     (simp_all add: getitem_dict AttributeValueSerializer_to_representation_def
        AttributeSerializer_to_representation_def)

lemma attr_values_loop_name:
  "attr_values_loop ''name'' (map (PDict \<circ> AttributeValueSerializer_to_representation) avs) acc =
     Inr (fold (\<lambda>v d. dict_update d (PStr (attr_name (avo_attribute v)))
                        (PStr (av_attribute_value (avo_row v)))) avs acc)"
  by (induction avs arbitrary: acc)
     (simp_all add: getitem_dict AttributeValueSerializer_to_representation_def
        AttributeSerializer_to_representation_def)

lemma fold_update_distinct:
  "distinct (map fst acc) \<Longrightarrow>
     distinct (map fst (fold (\<lambda>v d. dict_update d (kf v) (vf v)) avs acc))"
  by (induction avs arbitrary: acc) (simp_all add: distinct_dict_update)

lemma fold_update_map_of:
  "map_of (fold (\<lambda>v d. dict_update d (kf v) (vf v)) avs acc) =
     map_of acc ++ map_of (rev (map (\<lambda>v. (kf v, vf v)) avs))"
proof (induction avs arbitrary: acc)
  case Nil
  then show ?case by simp
next
  case (Cons a avs)
  show ?case
    by (auto simp: Cons.IH map_of_dict_update fun_eq_iff map_add_def split: option.splits)
qed

lemma fold_update_empty:
  "map_of (fold (\<lambda>v d. dict_update d (kf v) (vf v)) avs []) =
     map_of (rev (map (\<lambda>v. (kf v, vf v)) avs))"
  by (simp add: fold_update_map_of)

lemma ProductLineSerializer_doc:
  "ProductLineSerializer_to_representation l =
     Inr [(PStr ''price'', PStr (pl_price (plo_row l))),
          (PStr ''sku'', PStr (pl_sku (plo_row l))),
          (PStr ''stock_qty'', PInt (pl_stock_qty (plo_row l))),
          (PStr ''order'', PInt (pl_order (plo_row l))),
          (PStr ''product_image'',
             PList (map (PDict \<circ> ProductImageSerializer_to_representation)
                      (plo_product_image l))),
          (PStr ''specification'',
             PDict (fold (\<lambda>v d. dict_update d (PInt (int (attr_id (avo_attribute v))))
                        (PStr (av_attribute_value (avo_row v)))) (plo_attribute_value l) []))]"
  by (simp add: ProductLineSerializer_to_representation_def
      ProductLineSerializer_super_to_representation_def flatten_attribute_value_def
      dict_pop_def attr_values_loop_id)

lemma map_result_ex:
  "(\<And>x. \<exists>y. f x = Inr y) \<Longrightarrow> \<exists>ys. map_result f xs = Inr ys"
proof (induction xs)
  case Nil
  then show ?case by simp
next
  case (Cons a xs)
  from Cons.prems obtain y where "f a = Inr y" by blast
  moreover from Cons obtain ys where "map_result f xs = Inr ys" by blast
  ultimately show ?case by simp
qed

lemma ProductSerializer_doc:
  "\<exists>lines. map_result ProductLineSerializer_to_representation (po_product_line p) = Inr lines \<and>
     ProductSerializer_to_representation p =
       Inr [(PStr ''name'', PStr (prod_name (po_row p))),
            (PStr ''slug'', PStr (prod_slug (po_row p))),
            (PStr ''pid'', PStr (prod_pid (po_row p))),
            (PStr ''description'', PStr (prod_description (po_row p))),
            (PStr ''product_line'', PList (map PDict lines)),
            (PStr ''attribute'',
               PDict (fold (\<lambda>v d. dict_update d (PStr (attr_name (avo_attribute v)))
                          (PStr (av_attribute_value (avo_row v)))) (po_attribute_value p) []))]"
proof -
  have "\<exists>d. ProductLineSerializer_to_representation l = Inr d" for l
    by (simp add: ProductLineSerializer_doc)
  then obtain lines where
    l: "map_result ProductLineSerializer_to_representation (po_product_line p) = Inr lines"
    using map_result_ex [of ProductLineSerializer_to_representation "po_product_line p"]
    by blast
  then show ?thesis
    by (simp add: ProductSerializer_to_representation_def
        ProductSerializer_super_to_representation_def flatten_attribute_value_def
        dict_pop_def attr_values_loop_name)
qed

lemma single_entry:
  "distinct (map fst d) \<Longrightarrow> map_of d k = Some v \<Longrightarrow>
     length (filter (\<lambda>kv. fst kv = k) d) = 1"
proof (induction d)
  case Nil
  then show ?case by simp
next
  case (Cons a d)
  show ?case
  proof (cases "fst a = k")
    case True
    then have "k \<notin> fst ` set d" using Cons.prems(1) by auto
    then have "filter (\<lambda>kv. fst kv = k) d = []"
      by (auto simp: filter_empty_conv)
    with True show ?thesis by simp
  next
    case False
    with Cons show ?thesis by (cases a) auto
  qed
qed

lemma last_value_wins:
  assumes "avs = xs @ v # ys" "\<forall>w\<in>set ys. kf w \<noteq> kf v"
  shows "map_of (rev (map (\<lambda>v. (kf v, vf v)) avs)) (kf v) = Some (vf v)"
proof -
  have "kf v \<notin> fst ` set (rev (map (\<lambda>v. (kf v, vf v)) ys))" using assms(2) by force
  then have "map_of (rev (map (\<lambda>v. (kf v, vf v)) ys)) (kf v) = None"
    by (simp add: map_of_eq_None_iff)
  then show ?thesis using assms(1) by (simp add: map_add_def)
qed

lemma ProductCategorySerializer_doc:
  "ProductCategorySerializer_to_representation p =
     Inr ([(PStr ''name'', PStr (prod_name (po_row p))),
           (PStr ''slug'', PStr (prod_slug (po_row p))),
           (PStr ''pid'', PStr (prod_pid (po_row p))),
           (PStr ''created_at'', PStr (prod_created_at (po_row p)))] @
          (case po_product_line p of
             [] \<Rightarrow> []
           | l # ls \<Rightarrow>
               [(PStr ''price'', PStr (pl_price (plo_row l))),
                (PStr ''image'',
                   PList (map (PDict \<circ> ProductImageSerializer_to_representation)
                            (plo_product_image l)))]))"
proof (cases "po_product_line p")
  case Nil
  then show ?thesis
    by (simp add: ProductCategorySerializer_to_representation_def
        ProductCategorySerializer_super_to_representation_def dict_pop_def)
next
  case (Cons l ls)
  then show ?thesis
    by (simp add: ProductCategorySerializer_to_representation_def
        ProductCategorySerializer_super_to_representation_def dict_pop_def getitem_def
        list_index_def ProductLineCategorySerializer_to_representation_def)
qed

lemma CategoryViewSet_list_first:
  "fst (CategoryViewSet_list None db) =
     map (\<lambda>c. PDict [(PStr ''category'', PStr (cat_name c)), (PStr ''slug'', PStr (cat_slug c))])
       (filter cat_is_active (categories db))"
  by (simp add: CategoryViewSet_list_def QuerySet_fetch_all_def IsActiveQueryset_is_active_def
      CategorySerializer_to_representation_def)

section \<open>The attribute rule of a product line's joins (C4)\<close>

text \<open>
  Claim C4, as amended. \<open>ProductLineAttributeValue.clean\<close> raises
  \<open>Duplicate attribute exists\<close> exactly when the pair (attribute value, product line) is
  not stored and the product line already holds a value of the same attribute; then the
  save fails and the store is unchanged. When the pair is stored under another join row
  (always so when a new join repeats a stored pair), \<open>clean\<close> raises nothing, and the
  save is rejected all the same, by the \<open>unique_together\<close> check of \<open>full_clean\<close>, with
  the store unchanged. Re-saving the stored join row itself, in a store with unique ids
  and unique pairs and with the column validators satisfied, succeeds and leaves the
  store as it is. Altogether: whenever the product line already holds a value of the
  attribute and the instance is not a stored row saved again with its own pair, the save
  fails validation.
\<close>

theorem join_attribute_axis_rule:
  "ProductLineAttributeValue_clean db self =
     (if \<not> (\<exists>j\<in>set (product_line_attribute_values db).
              plav_attribute_value j = av_id (lav_attribute_value self) \<and>
              plav_product_line j = lav_product_line self) \<and>
         (\<exists>a\<in>set (attributes db). \<exists>v\<in>set (attribute_values db).
            \<exists>j\<in>set (product_line_attribute_values db).
              attr_id a = av_attribute (lav_attribute_value self) \<and>
              av_attribute v = attr_id a \<and> plav_attribute_value j = av_id v \<and>
              plav_product_line j = lav_product_line self)
      then Inl (ValidationError [''Duplicate attribute exists''])
      else Inr ())
   \<and> (\<not> (\<exists>j\<in>set (product_line_attribute_values db).
              plav_attribute_value j = av_id (lav_attribute_value self) \<and>
              plav_product_line j = lav_product_line self) \<and>
       (\<exists>a\<in>set (attributes db). \<exists>v\<in>set (attribute_values db).
            \<exists>j\<in>set (product_line_attribute_values db).
              attr_id a = av_attribute (lav_attribute_value self) \<and>
              av_attribute v = attr_id a \<and> plav_attribute_value j = av_id v \<and>
              plav_product_line j = lav_product_line self) \<longrightarrow>
       ProductLineAttributeValue_save jf db self =
         (Inl (ValidationError (jf db self @ [''Duplicate attribute exists''])), db))
   \<and> ((\<exists>j\<in>set (product_line_attribute_values db).
           Some (plav_id j) \<noteq> lav_id self \<and>
           plav_attribute_value j = av_id (lav_attribute_value self) \<and>
           plav_product_line j = lav_product_line self) \<longrightarrow>
       ProductLineAttributeValue_clean db self = Inr () \<and>
       ProductLineAttributeValue_save jf db self =
         (Inl (ValidationError
            (if jf db self = []
             then [''Product line attribute value with this Attribute value and Product line already exists.'']
             else jf db self)),
          db))
   \<and> (j \<in> set (product_line_attribute_values db) \<and>
       distinct (map plav_id (product_line_attribute_values db)) \<and>
       distinct (map (\<lambda>j. (plav_attribute_value j, plav_product_line j))
                  (product_line_attribute_values db)) \<and>
       lav_id self = Some (plav_id j) \<and>
       av_id (lav_attribute_value self) = plav_attribute_value j \<and>
       lav_product_line self = plav_product_line j \<and> jf db self = [] \<longrightarrow>
       ProductLineAttributeValue_save jf db self = (Inr (), db))
   \<and> ((\<exists>a\<in>set (attributes db). \<exists>v\<in>set (attribute_values db).
            \<exists>j\<in>set (product_line_attribute_values db).
              attr_id a = av_attribute (lav_attribute_value self) \<and>
              av_attribute v = attr_id a \<and> plav_attribute_value j = av_id v \<and>
              plav_product_line j = lav_product_line self) \<and>
       \<not> (\<exists>j\<in>set (product_line_attribute_values db).
              Some (plav_id j) = lav_id self \<and>
              plav_attribute_value j = av_id (lav_attribute_value self) \<and>
              plav_product_line j = lav_product_line self) \<longrightarrow>
       (\<exists>ms. ProductLineAttributeValue_save jf db self = (Inl (ValidationError ms), db)))"
proof -
  let ?stored = "\<exists>j\<in>set (product_line_attribute_values db).
              plav_attribute_value j = av_id (lav_attribute_value self) \<and>
              plav_product_line j = lav_product_line self"
  let ?axis = "\<exists>a\<in>set (attributes db). \<exists>v\<in>set (attribute_values db).
            \<exists>j\<in>set (product_line_attribute_values db).
              attr_id a = av_attribute (lav_attribute_value self) \<and>
              av_attribute v = attr_id a \<and> plav_attribute_value j = av_id v \<and>
              plav_product_line j = lav_product_line self"
  let ?other = "\<exists>j\<in>set (product_line_attribute_values db).
           Some (plav_id j) \<noteq> lav_id self \<and>
           plav_attribute_value j = av_id (lav_attribute_value self) \<and>
           plav_product_line j = lav_product_line self"
  have a: "\<not> ?stored \<and> ?axis \<longrightarrow>
       ProductLineAttributeValue_save jf db self =
         (Inl (ValidationError (jf db self @ [''Duplicate attribute exists''])), db)"
  proof
    assume h: "\<not> ?stored \<and> ?axis"
    then have c: "ProductLineAttributeValue_clean db self =
        Inl (ValidationError [''Duplicate attribute exists''])"
      by (simp only: ProductLineAttributeValue_clean_iff if_True simp_thms)
    have "\<not> ?other" using h by blast
    then have u: "ProductLineAttributeValue_validate_unique db self = []"
      by (simp only: ProductLineAttributeValue_validate_unique_iff if_False)
    show "ProductLineAttributeValue_save jf db self =
         (Inl (ValidationError (jf db self @ [''Duplicate attribute exists''])), db)"
      by (simp add: ProductLineAttributeValue_save_def full_clean_def messages_def c u)
  qed
  have b: "?other \<longrightarrow>
       ProductLineAttributeValue_clean db self = Inr () \<and>
       ProductLineAttributeValue_save jf db self =
         (Inl (ValidationError
            (if jf db self = []
             then [''Product line attribute value with this Attribute value and Product line already exists.'']
             else jf db self)),
          db)"
  proof
    assume h: ?other
    then have "?stored" by blast
    then have c: "ProductLineAttributeValue_clean db self = Inr ()"
      by (simp only: ProductLineAttributeValue_clean_iff simp_thms if_False)
    have u: "ProductLineAttributeValue_validate_unique db self =
        [''Product line attribute value with this Attribute value and Product line already exists.'']"
      using h by (simp only: ProductLineAttributeValue_validate_unique_iff if_True)
    show "ProductLineAttributeValue_clean db self = Inr () \<and>
       ProductLineAttributeValue_save jf db self =
         (Inl (ValidationError
            (if jf db self = []
             then [''Product line attribute value with this Attribute value and Product line already exists.'']
             else jf db self)),
          db)"
      by (simp add: ProductLineAttributeValue_save_def full_clean_def messages_def c u)
  qed
  have c: "?axis \<and>
       \<not> (\<exists>j\<in>set (product_line_attribute_values db).
              Some (plav_id j) = lav_id self \<and>
              plav_attribute_value j = av_id (lav_attribute_value self) \<and>
              plav_product_line j = lav_product_line self) \<longrightarrow>
       (\<exists>ms. ProductLineAttributeValue_save jf db self = (Inl (ValidationError ms), db))"
  proof
    assume h: "?axis \<and>
       \<not> (\<exists>j\<in>set (product_line_attribute_values db).
              Some (plav_id j) = lav_id self \<and>
              plav_attribute_value j = av_id (lav_attribute_value self) \<and>
              plav_product_line j = lav_product_line self)"
    show "\<exists>ms. ProductLineAttributeValue_save jf db self = (Inl (ValidationError ms), db)"
    proof (cases ?other)
      case True
      with b show ?thesis by blast
    next
      case False
      with h have "\<not> ?stored" by blast
      with h a show ?thesis by blast
    qed
  qed
  show ?thesis
    using a b c ProductLineAttributeValue_clean_iff [of db self] join_resave [of j db self jf]
    by blast
qed

theorem join_attribute_axis_rule_witness:
  "ProductLineAttributeValue_save no_join_errors example_db
       \<lparr>lav_id = None, lav_attribute_value = blue, lav_product_line = 1\<rparr> =
     (Inl (ValidationError [''Duplicate attribute exists'']), example_db)
   \<and> ProductLineAttributeValue_clean example_db
       \<lparr>lav_id = None, lav_attribute_value = red, lav_product_line = 1\<rparr> = Inr ()
   \<and> ProductLineAttributeValue_save no_join_errors example_db
       \<lparr>lav_id = None, lav_attribute_value = red, lav_product_line = 1\<rparr> =
     (Inl (ValidationError
        [''Product line attribute value with this Attribute value and Product line already exists.'']),
      example_db)
   \<and> ProductLineAttributeValue_save no_join_errors example_db
       \<lparr>lav_id = Some 1, lav_attribute_value = red, lav_product_line = 1\<rparr> =
     (Inr (), example_db)"
proof -
  let ?J = "product_line_attribute_values example_db"
  let ?new_blue = "\<lparr>lav_id = None, lav_attribute_value = blue, lav_product_line = 1\<rparr>"
  let ?new_red = "\<lparr>lav_id = None, lav_attribute_value = red, lav_product_line = 1\<rparr>"
  let ?old_red = "\<lparr>lav_id = Some 1, lav_attribute_value = red, lav_product_line = 1\<rparr>"
  let ?row = "\<lparr>plav_id = 1, plav_attribute_value = 1, plav_product_line = 1\<rparr>"
  have J: "?J = [?row]" by (simp add: example_db_def)
  have A: "attributes example_db =
      [\<lparr>attr_id = 1, attr_name = ''Color''\<rparr>, \<lparr>attr_id = 2, attr_name = ''Size''\<rparr>]"
    by (simp add: example_db_def)
  have V: "attribute_values example_db = [red, blue, large]"
    by (simp add: example_db_def red_def blue_def large_def)
  have h1: "\<not> (\<exists>j\<in>set ?J. plav_attribute_value j = av_id (lav_attribute_value ?new_blue) \<and>
              plav_product_line j = lav_product_line ?new_blue) \<and>
       (\<exists>a\<in>set (attributes example_db). \<exists>v\<in>set (attribute_values example_db).
            \<exists>j\<in>set ?J.
              attr_id a = av_attribute (lav_attribute_value ?new_blue) \<and>
              av_attribute v = attr_id a \<and> plav_attribute_value j = av_id v \<and>
              plav_product_line j = lav_product_line ?new_blue)"
    unfolding J A V by (simp add: red_def blue_def large_def)
  have h2: "\<exists>j\<in>set ?J. Some (plav_id j) \<noteq> lav_id ?new_red \<and>
           plav_attribute_value j = av_id (lav_attribute_value ?new_red) \<and>
           plav_product_line j = lav_product_line ?new_red"
    unfolding J by (simp add: red_def)
  have h3: "?row \<in> set ?J \<and> distinct (map plav_id ?J) \<and>
       distinct (map (\<lambda>j. (plav_attribute_value j, plav_product_line j)) ?J) \<and>
       lav_id ?old_red = Some (plav_id ?row) \<and>
       av_id (lav_attribute_value ?old_red) = plav_attribute_value ?row \<and>
       lav_product_line ?old_red = plav_product_line ?row \<and>
       no_join_errors example_db ?old_red = []"
    unfolding J by (simp add: red_def no_join_errors_def)
  have a: "ProductLineAttributeValue_save no_join_errors example_db ?new_blue =
      (Inl (ValidationError (no_join_errors example_db ?new_blue @
         [''Duplicate attribute exists''])), example_db)"
    using join_attribute_axis_rule [where db = example_db and jf = no_join_errors
        and self = ?new_blue, THEN conjunct2, THEN conjunct1] h1 by (rule mp)
  have b: "ProductLineAttributeValue_clean example_db ?new_red = Inr () \<and>
      ProductLineAttributeValue_save no_join_errors example_db ?new_red =
      (Inl (ValidationError
         (if no_join_errors example_db ?new_red = []
          then [''Product line attribute value with this Attribute value and Product line already exists.'']
          else no_join_errors example_db ?new_red)),
       example_db)"
    using join_attribute_axis_rule [where db = example_db and jf = no_join_errors
        and self = ?new_red, THEN conjunct2, THEN conjunct2, THEN conjunct1] h2 by (rule mp)
  have c: "ProductLineAttributeValue_save no_join_errors example_db ?old_red =
      (Inr (), example_db)"
    using join_attribute_axis_rule [where db = example_db and jf = no_join_errors
        and self = ?old_red and j = ?row, THEN conjunct2, THEN conjunct2, THEN conjunct2,
        THEN conjunct1] h3
    by (rule mp)
  show ?thesis using a b c by (simp add: no_join_errors_def)
qed

text \<open>
  Claim C4 as stated does not hold: the pair (Red, line 1) is stored, and saving a new
  join with the same pair is not a silent no-op but a validation failure.
\<close>

theorem join_duplicate_pair_rejected:
  "list_ex (\<lambda>j. plav_attribute_value j = av_id red \<and> plav_product_line j = 1)
     (product_line_attribute_values example_db)
   \<and> ProductLineAttributeValue_save no_join_errors example_db
       \<lparr>lav_id = None, lav_attribute_value = red, lav_product_line = 1\<rparr> =
     (Inl (ValidationError
       [''Product line attribute value with this Attribute value and Product line already exists.'']),
      example_db)"
  by (simp add: ProductLineAttributeValue_save_def full_clean_def messages_def
      ProductLineAttributeValue_clean_def ProductLineAttributeValue_validate_unique_def
      example_db_def red_def no_join_errors_def)

section \<open>The flattened attribute maps (C6)\<close>

text \<open>
  Claim C6. The document of a product line has a \<open>specification\<close> entry: a dictionary
  with each key once that maps the id of an attribute to the text of the line's value of
  that attribute (the last one in the line's list, should an attribute occur twice). The
  document of a product has an \<open>attribute\<close> entry built the same way with the
  attribute's name as key, and its \<open>product_line\<close> entry lists the documents of its
  lines. Neither document has an \<open>attribute_value\<close> key. Serializing raises nothing.
\<close>

theorem serialized_attribute_maps:
  "(\<exists>data spec.
      ProductLineSerializer_to_representation l = Inr data \<and>
      map_of data (PStr ''specification'') = Some (PDict spec) \<and>
      PStr ''attribute_value'' \<notin> fst ` set data \<and>
      distinct (map fst spec) \<and>
      map_of spec =
        map_of (rev (map (\<lambda>v. (PInt (int (attr_id (avo_attribute v))),
                               PStr (av_attribute_value (avo_row v))))
                      (plo_attribute_value l))))
   \<and> (\<exists>data attrs lines.
      ProductSerializer_to_representation p = Inr data \<and>
      map_of data (PStr ''attribute'') = Some (PDict attrs) \<and>
      PStr ''attribute_value'' \<notin> fst ` set data \<and>
      distinct (map fst attrs) \<and>
      map_of attrs =
        map_of (rev (map (\<lambda>v. (PStr (attr_name (avo_attribute v)),
                               PStr (av_attribute_value (avo_row v))))
                      (po_attribute_value p))) \<and>
      map_result ProductLineSerializer_to_representation (po_product_line p) = Inr lines \<and>
      map_of data (PStr ''product_line'') = Some (PList (map PDict lines)))"
proof
  let ?spec = "fold (\<lambda>v d. dict_update d (PInt (int (attr_id (avo_attribute v))))
                 (PStr (av_attribute_value (avo_row v)))) (plo_attribute_value l) []"
  have "distinct (map fst ?spec)" by (rule fold_update_distinct) simp
  moreover have "map_of ?spec =
      map_of (rev (map (\<lambda>v. (PInt (int (attr_id (avo_attribute v))),
                             PStr (av_attribute_value (avo_row v))))
                    (plo_attribute_value l)))"
    by (rule fold_update_empty)
  ultimately show "\<exists>data spec.
      ProductLineSerializer_to_representation l = Inr data \<and>
      map_of data (PStr ''specification'') = Some (PDict spec) \<and>
      PStr ''attribute_value'' \<notin> fst ` set data \<and>
      distinct (map fst spec) \<and>
      map_of spec =
        map_of (rev (map (\<lambda>v. (PInt (int (attr_id (avo_attribute v))),
                               PStr (av_attribute_value (avo_row v))))
                      (plo_attribute_value l)))"
    by (simp add: ProductLineSerializer_doc)
next
  let ?attrs = "fold (\<lambda>v d. dict_update d (PStr (attr_name (avo_attribute v)))
                  (PStr (av_attribute_value (avo_row v)))) (po_attribute_value p) []"
  have d: "distinct (map fst ?attrs)" by (rule fold_update_distinct) simp
  have m: "map_of ?attrs =
      map_of (rev (map (\<lambda>v. (PStr (attr_name (avo_attribute v)),
                             PStr (av_attribute_value (avo_row v))))
                    (po_attribute_value p)))"
    by (rule fold_update_empty)
  from ProductSerializer_doc [of p] obtain lines where
    l: "map_result ProductLineSerializer_to_representation (po_product_line p) = Inr lines"
    and doc: "ProductSerializer_to_representation p =
       Inr [(PStr ''name'', PStr (prod_name (po_row p))),
            (PStr ''slug'', PStr (prod_slug (po_row p))),
            (PStr ''pid'', PStr (prod_pid (po_row p))),
            (PStr ''description'', PStr (prod_description (po_row p))),
            (PStr ''product_line'', PList (map PDict lines)),
            (PStr ''attribute'', PDict ?attrs)]"
    by blast
  show "\<exists>data attrs lines.
      ProductSerializer_to_representation p = Inr data \<and>
      map_of data (PStr ''attribute'') = Some (PDict attrs) \<and>
      PStr ''attribute_value'' \<notin> fst ` set data \<and>
      distinct (map fst attrs) \<and>
      map_of attrs =
        map_of (rev (map (\<lambda>v. (PStr (attr_name (avo_attribute v)),
                               PStr (av_attribute_value (avo_row v))))
                      (po_attribute_value p))) \<and>
      map_result ProductLineSerializer_to_representation (po_product_line p) = Inr lines \<and>
      map_of data (PStr ''product_line'') = Some (PList (map PDict lines))"
    using d m l by (simp add: doc)
qed

section \<open>The category listing (C7)\<close>

text \<open>
  Claim C7. The first request a process serves returns the active categories, each as
  \<open>{category, slug}\<close> (lemma \<open>CategoryViewSet_list_first\<close>). Every later request returns
  the rows cached by the first one: after all categories of the example store have been
  deactivated, the listing still shows Shoes. The claim fails on the code.
\<close>

theorem category_list_repeats_first_result:
  "fst (CategoryViewSet_list None example_db) =
     [PDict [(PStr ''category'', PStr ''Shoes''), (PStr ''slug'', PStr ''shoes'')]]
   \<and> filter cat_is_active (categories example_db_closed) = []
   \<and> fst (CategoryViewSet_list (snd (CategoryViewSet_list None example_db)) example_db_closed) =
     [PDict [(PStr ''category'', PStr ''Shoes''), (PStr ''slug'', PStr ''shoes'')]]"
  by (simp add: CategoryViewSet_list_def QuerySet_fetch_all_def IsActiveQueryset_is_active_def
      CategorySerializer_to_representation_def example_db_closed_def example_db_def)

section \<open>Retrieving an unknown or inactive product (C8)\<close>

text \<open>
  Claim C8. For a slug that no active product has, \<open>retrieve\<close> returns the empty list
  and raises nothing.
\<close>

theorem retrieve_unknown_slug_empty:
  "\<not> (\<exists>p\<in>set (products db). prod_is_active p \<and> prod_slug p = slug) \<Longrightarrow>
     ProductViewSet_retrieve db slug = Inr []"
proof -
  assume "\<not> (\<exists>p\<in>set (products db). prod_is_active p \<and> prod_slug p = slug)"
  then have "filter (\<lambda>p. prod_slug p = slug)
      (IsActiveQueryset_is_active prod_is_active (products db)) = []"
    by (auto simp: IsActiveQueryset_is_active_def filter_empty_conv)
  then show ?thesis by (simp add: ProductViewSet_retrieve_def)
qed

theorem retrieve_unknown_slug_empty_witness:
  "\<not> (\<exists>p\<in>set (products example_db). prod_is_active p \<and> prod_slug p = ''cap'')
   \<and> ProductViewSet_retrieve example_db ''cap'' = Inr []
   \<and> ProductViewSet_retrieve example_db ''sock'' = Inr []"
proof -
  have a: "\<not> (\<exists>p\<in>set (products example_db). prod_is_active p \<and> prod_slug p = ''cap'')"
    by (simp add: example_db_def)
  have b: "\<not> (\<exists>p\<in>set (products example_db). prod_is_active p \<and> prod_slug p = ''sock'')"
    by (simp add: example_db_def)
  show ?thesis
    using a retrieve_unknown_slug_empty [OF a] retrieve_unknown_slug_empty [OF b] by simp
qed

section \<open>Product-level attribute values (C9)\<close>

text \<open>
  Claim C9. Saving a join of a product and an attribute value is rejected only when
  another stored join has the same pair; the attribute of the value plays no part, so a
  product can hold two values of one attribute. In the product's document the
  \<open>attribute\<close> dictionary then has exactly one entry under a name, and it carries the
  text of the last value of that name in the product's list of values.
\<close>

theorem product_attribute_last_wins:
  "fst (ProductAttributeValue_save db x) =
     (if \<exists>j\<in>set (product_attribute_values db).
           Some (pav_id j) \<noteq> pv_id x \<and>
           pav_attribute_value j = av_id (pv_attribute_value x) \<and>
           pav_product j = pv_product x
      then Inl IntegrityError else Inr ())
   \<and> (pv_id x = None \<and>
       \<not> (\<exists>j\<in>set (product_attribute_values db).
             pav_attribute_value j = av_id (pv_attribute_value x) \<and>
             pav_product j = pv_product x) \<longrightarrow>
       ProductAttributeValue_save db x =
         (Inr (), db\<lparr>product_attribute_values := product_attribute_values db @
            [\<lparr>pav_id = fresh_pk (map pav_id (product_attribute_values db)),
              pav_attribute_value = av_id (pv_attribute_value x),
              pav_product = pv_product x\<rparr>]\<rparr>))
   \<and> (po_attribute_value p = xs @ v # ys \<and>
       (\<forall>w\<in>set ys. attr_name (avo_attribute w) \<noteq> attr_name (avo_attribute v)) \<longrightarrow>
       (\<exists>data attrs.
          ProductSerializer_to_representation p = Inr data \<and>
          map_of data (PStr ''attribute'') = Some (PDict attrs) \<and>
          length (filter (\<lambda>kv. fst kv = PStr (attr_name (avo_attribute v))) attrs) = 1 \<and>
          map_of attrs (PStr (attr_name (avo_attribute v))) =
            Some (PStr (av_attribute_value (avo_row v)))))"
proof -
  have a: "fst (ProductAttributeValue_save db x) =
     (if \<exists>j\<in>set (product_attribute_values db).
           Some (pav_id j) \<noteq> pv_id x \<and>
           pav_attribute_value j = av_id (pv_attribute_value x) \<and>
           pav_product j = pv_product x
      then Inl IntegrityError else Inr ())"
    by (auto simp: ProductAttributeValue_save_def list_ex_iff)
  have b: "pv_id x = None \<and>
       \<not> (\<exists>j\<in>set (product_attribute_values db).
             pav_attribute_value j = av_id (pv_attribute_value x) \<and>
             pav_product j = pv_product x) \<longrightarrow>
       ProductAttributeValue_save db x =
         (Inr (), db\<lparr>product_attribute_values := product_attribute_values db @
            [\<lparr>pav_id = fresh_pk (map pav_id (product_attribute_values db)),
              pav_attribute_value = av_id (pv_attribute_value x),
              pav_product = pv_product x\<rparr>]\<rparr>)"
    by (auto simp: ProductAttributeValue_save_def list_ex_iff Model_save_def
        ProductAttributeValue_to_row_def)
  have c: "\<exists>data attrs.
          ProductSerializer_to_representation p = Inr data \<and>
          map_of data (PStr ''attribute'') = Some (PDict attrs) \<and>
          length (filter (\<lambda>kv. fst kv = PStr (attr_name (avo_attribute v))) attrs) = 1 \<and>
          map_of attrs (PStr (attr_name (avo_attribute v))) =
            Some (PStr (av_attribute_value (avo_row v)))"
    if h: "po_attribute_value p = xs @ v # ys"
      "\<forall>w\<in>set ys. attr_name (avo_attribute w) \<noteq> attr_name (avo_attribute v)"
  proof -
    let ?attrs = "fold (\<lambda>v d. dict_update d (PStr (attr_name (avo_attribute v)))
                  (PStr (av_attribute_value (avo_row v)))) (po_attribute_value p) []"
    have d: "distinct (map fst ?attrs)" by (rule fold_update_distinct) simp
    have "\<forall>w\<in>set ys. PStr (attr_name (avo_attribute w)) \<noteq> PStr (attr_name (avo_attribute v))"
      using h(2) by simp
    from last_value_wins [OF h(1) this, of "\<lambda>v. PStr (av_attribute_value (avo_row v))"]
    have m: "map_of ?attrs (PStr (attr_name (avo_attribute v))) =
        Some (PStr (av_attribute_value (avo_row v)))"
      by (simp add: fold_update_empty)
    have one: "length (filter (\<lambda>kv. fst kv = PStr (attr_name (avo_attribute v))) ?attrs) = 1"
      by (rule single_entry [OF d m])
    from ProductSerializer_doc [of p] m one show ?thesis by auto
  qed
  show ?thesis using a b c by blast
qed

theorem product_attribute_last_wins_witness:
  "ProductAttributeValue_save
       (example_db\<lparr>product_attribute_values :=
          [\<lparr>pav_id = 1, pav_attribute_value = 1, pav_product = 1\<rparr>]\<rparr>)
       \<lparr>pv_id = None, pv_attribute_value = blue, pv_product = 1\<rparr> =
     (Inr (), example_db\<lparr>product_attribute_values :=
          [\<lparr>pav_id = 1, pav_attribute_value = 1, pav_product = 1\<rparr>,
           \<lparr>pav_id = 2, pav_attribute_value = 2, pav_product = 1\<rparr>]\<rparr>)
   \<and> po_attribute_value (load_product example_db boot) =
       [\<lparr>avo_row = red, avo_attribute = color\<rparr>, \<lparr>avo_row = blue, avo_attribute = color\<rparr>]
   \<and> (\<exists>data attrs.
        ProductSerializer_to_representation (load_product example_db boot) = Inr data \<and>
        map_of data (PStr ''attribute'') = Some (PDict attrs) \<and>
        length (filter (\<lambda>kv. fst kv = PStr ''Color'') attrs) = 1 \<and>
        map_of attrs (PStr ''Color'') = Some (PStr ''Blue''))"
proof -
  let ?db = "example_db\<lparr>product_attribute_values :=
          [\<lparr>pav_id = 1, pav_attribute_value = 1, pav_product = 1\<rparr>]\<rparr>"
  let ?x = "\<lparr>pv_id = None, pv_attribute_value = blue, pv_product = 1\<rparr>"
  let ?red = "\<lparr>avo_row = red, avo_attribute = color\<rparr>"
  let ?blue = "\<lparr>avo_row = blue, avo_attribute = color\<rparr>"
  have h1: "pv_id ?x = None \<and>
       \<not> (\<exists>j\<in>set (product_attribute_values ?db).
             pav_attribute_value j = av_id (pv_attribute_value ?x) \<and>
             pav_product j = pv_product ?x)"
    by (simp add: blue_def)
  have s: "ProductAttributeValue_save ?db ?x =
         (Inr (), ?db\<lparr>product_attribute_values := product_attribute_values ?db @
            [\<lparr>pav_id = fresh_pk (map pav_id (product_attribute_values ?db)),
              pav_attribute_value = av_id (pv_attribute_value ?x),
              pav_product = pv_product ?x\<rparr>]\<rparr>)"
    using product_attribute_last_wins [where db = ?db and x = ?x,
        THEN conjunct2, THEN conjunct1] h1 by (rule mp)
  have l: "po_attribute_value (load_product example_db boot) = [?red] @ ?blue # []"
    by (simp add: load_product_def load_attribute_values_def example_db_def boot_def
        red_def blue_def color_def)
  have h2: "po_attribute_value (load_product example_db boot) = [?red] @ ?blue # [] \<and>
       (\<forall>w\<in>set []. attr_name (avo_attribute w) \<noteq> attr_name (avo_attribute ?blue))"
    using l by simp
  have e: "\<exists>data attrs.
          ProductSerializer_to_representation (load_product example_db boot) = Inr data \<and>
          map_of data (PStr ''attribute'') = Some (PDict attrs) \<and>
          length (filter (\<lambda>kv. fst kv = PStr (attr_name (avo_attribute ?blue))) attrs) = 1 \<and>
          map_of attrs (PStr (attr_name (avo_attribute ?blue))) =
            Some (PStr (av_attribute_value (avo_row ?blue)))"
    using product_attribute_last_wins [where p = "load_product example_db boot"
        and xs = "[?red]" and v = ?blue and ys = "[]",
        THEN conjunct2, THEN conjunct2] h2 by (rule mp)
  show ?thesis using s l e by (simp add: fresh_pk_def blue_def color_def)
qed

section \<open>Price and image in the category listing (C10)\<close>

text \<open>
  Claim C10. The document of a product in the category listing has the keys name, slug,
  pid and created_at, followed by \<open>price\<close> and \<open>image\<close> taken from the first product
  line when the product has one, and by nothing otherwise. The view returns these
  documents for the active products of the category and raises nothing.
\<close>

theorem category_listing_price_image:
  "ProductCategorySerializer_to_representation p =
     Inr ([(PStr ''name'', PStr (prod_name (po_row p))),
           (PStr ''slug'', PStr (prod_slug (po_row p))),
           (PStr ''pid'', PStr (prod_pid (po_row p))),
           (PStr ''created_at'', PStr (prod_created_at (po_row p)))] @
          (case po_product_line p of
             [] \<Rightarrow> []
           | l # ls \<Rightarrow>
               [(PStr ''price'', PStr (pl_price (plo_row l))),
                (PStr ''image'',
                   PList (map (PDict \<circ> ProductImageSerializer_to_representation)
                            (plo_product_image l)))]))
   \<and> (\<exists>docs.
        map_result (ProductCategorySerializer_to_representation \<circ> load_product db)
          [p. p \<leftarrow> IsActiveQueryset_is_active prod_is_active (products db),
              c \<leftarrow> categories db, cat_id c = prod_category p, cat_slug c = slug] = Inr docs \<and>
        ProductViewSet_list_product_by_category_slug db slug = Inr (map PDict docs))"
proof -
  have "\<exists>y. (ProductCategorySerializer_to_representation \<circ> load_product db) q = Inr y" for q
    by (simp add: ProductCategorySerializer_doc)
  from map_result_ex [of "ProductCategorySerializer_to_representation \<circ> load_product db", OF this]
  obtain docs where
    "map_result (ProductCategorySerializer_to_representation \<circ> load_product db)
          [p. p \<leftarrow> IsActiveQueryset_is_active prod_is_active (products db),
              c \<leftarrow> categories db, cat_id c = prod_category p, cat_slug c = slug] = Inr docs"
    by blast
  then show ?thesis
    by (simp add: ProductCategorySerializer_doc ProductViewSet_list_product_by_category_slug_def)
qed

theorem category_listing_price_image_witness:
  "ProductViewSet_list_product_by_category_slug example_db ''shoes'' =
     Inr [PDict [(PStr ''name'', PStr ''Boot''), (PStr ''slug'', PStr ''boot''),
                 (PStr ''pid'', PStr ''p1''), (PStr ''created_at'', PStr ''2024''),
                 (PStr ''price'', PStr ''10.00''),
                 (PStr ''image'',
                    PList [PDict [(PStr ''alternative_text'', PStr ''front''),
                                  (PStr ''url'', PStr ''f.jpg''), (PStr ''order'', PInt 1)]])],
          PDict [(PStr ''name'', PStr ''Clog''), (PStr ''slug'', PStr ''clog''),
                 (PStr ''pid'', PStr ''p3''), (PStr ''created_at'', PStr ''2025'')]]"
proof -
  from category_listing_price_image [where db = example_db and slug = "''shoes''"]
  obtain docs where
    m: "map_result (ProductCategorySerializer_to_representation \<circ> load_product example_db)
          [p. p \<leftarrow> IsActiveQueryset_is_active prod_is_active (products example_db),
              c \<leftarrow> categories example_db, cat_id c = prod_category p,
              cat_slug c = ''shoes''] = Inr docs"
    and v: "ProductViewSet_list_product_by_category_slug example_db ''shoes'' =
      Inr (map PDict docs)"
    by blast
  have sel: "[p. p \<leftarrow> IsActiveQueryset_is_active prod_is_active (products example_db),
              c \<leftarrow> categories example_db, cat_id c = prod_category p,
              cat_slug c = ''shoes''] = [boot, clog]"
    by (simp add: example_db_def IsActiveQueryset_is_active_def boot_def clog_def)
  have b: "ProductCategorySerializer_to_representation (load_product example_db boot) =
      Inr [(PStr ''name'', PStr ''Boot''), (PStr ''slug'', PStr ''boot''),
           (PStr ''pid'', PStr ''p1''), (PStr ''created_at'', PStr ''2024''),
           (PStr ''price'', PStr ''10.00''),
           (PStr ''image'',
              PList [PDict [(PStr ''alternative_text'', PStr ''front''),
                            (PStr ''url'', PStr ''f.jpg''), (PStr ''order'', PInt 1)]])]"
    using category_listing_price_image [where p = "load_product example_db boot"]
    by (simp add: load_product_def load_product_line_def example_db_def boot_def
        ProductImageSerializer_to_representation_def)
  have c: "ProductCategorySerializer_to_representation (load_product example_db clog) =
      Inr [(PStr ''name'', PStr ''Clog''), (PStr ''slug'', PStr ''clog''),
           (PStr ''pid'', PStr ''p3''), (PStr ''created_at'', PStr ''2025'')]"
    using category_listing_price_image [where p = "load_product example_db clog"]
    by (simp add: load_product_def load_product_line_def example_db_def clog_def)
  from m have "docs = [[(PStr ''name'', PStr ''Boot''), (PStr ''slug'', PStr ''boot''),
           (PStr ''pid'', PStr ''p1''), (PStr ''created_at'', PStr ''2024''),
           (PStr ''price'', PStr ''10.00''),
           (PStr ''image'',
              PList [PDict [(PStr ''alternative_text'', PStr ''front''),
                            (PStr ''url'', PStr ''f.jpg''), (PStr ''order'', PInt 1)]])],
          [(PStr ''name'', PStr ''Clog''), (PStr ''slug'', PStr ''clog''),
           (PStr ''pid'', PStr ''p3''), (PStr ''created_at'', PStr ''2025'')]]"
    unfolding sel by (simp add: b c)
  with v show ?thesis by simp
qed

end
